theory Spec2Isabelle
  imports Complex_Main "HOL-Library.Word"
begin

section \<open>Modelling conventions\<close>

text \<open>
  The program is the C++ tool \<^verbatim>\<open>extract_loudest_section\<close>: a 16-bit PCM WAV codec
  (\<^verbatim>\<open>wav_io.cc\<close>), the loudest-segment search and the trim pipeline (\<^verbatim>\<open>main.cc\<close>), and the
  status type (\<^verbatim>\<open>status.h\<close>).

  \<^item> \<^verbatim>\<open>float\<close> samples are finite and modelled as \<^typ>\<open>real\<close>. The scalings by \<open>2^15\<close> of
    the codec are exact in binary32. The sums and quotients of \<^verbatim>\<open>main.cc\<close> are modelled
    twice: over the reals (\<open>TrimToLoudestSegment\<close>, \<open>downmix\<close>, \<open>TrimFile\<close>), which is
    what binary32 computes wherever no result is rounded, as on every concrete input
    evaluated with these definitions below; and in binary32 with its rounding
    (\<open>TrimToLoudestSegment_f32\<close>, \<open>downmix_f32\<close>, \<open>TrimFile_f32\<close>), for the property
    that depends on the rounding. A division by zero gives an infinity or a NaN in both
    (the type \<open>fp\<close>).
  \<^item> \<^verbatim>\<open>uint8_t\<close> is \<^typ>\<open>8 word\<close>. Wider machine integers are \<^typ>\<open>nat\<close> or \<^typ>\<open>int\<close>
    with the wrap-around written out: \<^verbatim>\<open>size_t\<close> is 64 bits wide, \<^verbatim>\<open>int\<close> is 32 bits
    wide and a conversion to it wraps in two's complement.
  \<^item> Undefined behaviour of the C++ (an integer division by zero, a read outside a
    buffer, a signed overflow) is a result of its own, \<open>Undefined\<close>.
  \<^item> A function that returns a \<^verbatim>\<open>Status\<close> and fills output parameters is a function
    into \<open>'a outcome\<close>: \<open>Value\<close> carries the output parameters of a call that
    returned \<^verbatim>\<open>Status::OK()\<close>, \<open>Fail\<close> the status of a call that returned early.
\<close>

section \<open>Status (status.h)\<close>

datatype code =
    OK | CANCELLED | UNKNOWN | INVALID_ARGUMENT | DEADLINE_EXCEEDED | NOT_FOUND
  | ALREADY_EXISTS | PERMISSION_DENIED | UNAUTHENTICATED | RESOURCE_EXHAUSTED
  | FAILED_PRECONDITION | ABORTED | OUT_OF_RANGE | UNIMPLEMENTED | INTERNAL
  | UNAVAILABLE | DATA_LOSS

text \<open>\<^verbatim>\<open>Status\<close>: a null state is success, otherwise a code and a message.\<close>

datatype status = StatusOK | StatusError code string

fun ok :: "status \<Rightarrow> bool" where
  "ok StatusOK = True"
| "ok (StatusError c m) = False"

fun status_code :: "status \<Rightarrow> code" where
  "status_code StatusOK = OK"
| "status_code (StatusError c m) = c"

fun error_message :: "status \<Rightarrow> string" where
  "error_message StatusOK = []"
| "error_message (StatusError c m) = m"

text \<open>\<^verbatim>\<open>DECLARE_ERROR(InvalidArgument, INVALID_ARGUMENT)\<close>: the constructor, whose
  argument is the text that \<^verbatim>\<open>stringer\<close> streamed, and the predicate.\<close>

definition InvalidArgument :: "string \<Rightarrow> status" where
  "InvalidArgument msg = StatusError INVALID_ARGUMENT msg"

definition IsInvalidArgument :: "status \<Rightarrow> bool" where
  "IsInvalidArgument s = (status_code s = INVALID_ARGUMENT)"

datatype ub = DivisionByZero | OutOfBoundsRead | SignedOverflow | FloatToIntegerRange

datatype 'a outcome = Value 'a | Fail status | Undefined ub

text \<open>\<^verbatim>\<open>TF_RETURN_IF_ERROR(expr)\<close> followed by the rest of the function body.\<close>

definition TF_RETURN_IF_ERROR :: "'a outcome \<Rightarrow> ('a \<Rightarrow> 'b outcome) \<Rightarrow> 'b outcome" where
  "TF_RETURN_IF_ERROR expr rest =
     (case expr of Value v \<Rightarrow> rest v | Fail s \<Rightarrow> Fail s | Undefined u \<Rightarrow> Undefined u)"

text \<open>What \<^verbatim>\<open>stream << n\<close> prints for an unsigned integer: its decimal digits.\<close>

definition digit :: "nat \<Rightarrow> char" where
  "digit d = (''0123456789'' ! d)"

function decimal :: "nat \<Rightarrow> string" where
  "decimal n = (if n < 10 then [digit n] else decimal (n div 10) @ [digit (n mod 10)])"
  by pat_completeness auto
termination
  by (relation "measure (\<lambda>n. n)") auto

declare decimal.simps [simp del]

section \<open>The chunk reader (wav_io.cc)\<close>

type_synonym byte = "8 word"

text \<open>Conversion of an integer to \<^verbatim>\<open>int\<close> (32 bits, two's complement) and to
  \<^verbatim>\<open>size_t\<close> (64 bits, unsigned).\<close>

definition int32_of :: "int \<Rightarrow> int" where
  "int32_of x = (x + 2 ^ 31) mod 2 ^ 32 - 2 ^ 31"

definition size_t_of :: "int \<Rightarrow> nat" where
  "size_t_of x = nat (x mod 2 ^ 64)"

text \<open>A \<^verbatim>\<open>std::string\<close> holds bytes; texts are shown as \<^typ>\<open>string\<close>.\<close>

definition bytes_of :: "string \<Rightarrow> byte list" where
  "bytes_of s = map of_char s"

definition text_of :: "byte list \<Rightarrow> string" where
  "text_of bs = map (\<lambda>b. char_of (unat b)) bs"

text \<open>The bytes \<^verbatim>\<open>data + a\<close> up to \<^verbatim>\<open>data + b\<close>, for \<open>0 \<le> a \<le> b \<le> length data\<close>.\<close>

definition slice :: "byte list \<Rightarrow> int \<Rightarrow> int \<Rightarrow> byte list" where
  "slice data a b = take (nat (b - a)) (drop (nat a) data)"

text \<open>\<^verbatim>\<open>memcpy\<close> of bytes into an unsigned integer (little-endian host).\<close>

fun le_nat :: "byte list \<Rightarrow> nat" where
  "le_nat [] = 0"
| "le_nat (b # bs) = unat b + 256 * le_nat bs"

text \<open>The value of the \<^verbatim>\<open>int16_t\<close> with the bits of a 16-bit unsigned value.\<close>

definition int16_of :: "nat \<Rightarrow> int" where
  "int16_of v = (if v \<ge> 32768 then int v - 65536 else int v)"

definition kRiffChunkId :: string where "kRiffChunkId = ''RIFF''"
definition kRiffType :: string where "kRiffType = ''WAVE''"
definition kFormatChunkId :: string where "kFormatChunkId = ''fmt ''"
definition kDataChunkId :: string where "kDataChunkId = ''data''"

text \<open>
  In the three readers \<^verbatim>\<open>new_offset\<close> is an \<^verbatim>\<open>int\<close>, and the test
  \<^verbatim>\<open>new_offset > data_length\<close> compares it as a \<^verbatim>\<open>size_t\<close>. The result of a
  successful call is the new value of \<^verbatim>\<open>*offset\<close> (with the value read).
\<close>

definition ExpectText :: "byte list \<Rightarrow> string \<Rightarrow> int \<Rightarrow> int outcome" where
  "ExpectText data expected_text offset =
     (let new_offset = int32_of (offset + int (length expected_text)) in
      if size_t_of new_offset > length data
      then Fail (InvalidArgument (''Data too short when trying to read '' @ expected_text))
      else if offset < 0 \<or> new_offset < offset then Undefined OutOfBoundsRead
      else
        let found_text = text_of (slice data offset new_offset) in
        if found_text \<noteq> expected_text
        then Fail (InvalidArgument
               (''Header mismatch: Expected '' @ expected_text @ '' but found '' @ found_text))
        else Value new_offset)"

text \<open>\<^verbatim>\<open>ReadValue<T>\<close> with \<open>sizeof_T = sizeof(T)\<close>; the value is returned unsigned.\<close>

definition ReadValue :: "nat \<Rightarrow> byte list \<Rightarrow> int \<Rightarrow> (nat \<times> int) outcome" where
  "ReadValue sizeof_T data offset =
     (let new_offset = int32_of (offset + int sizeof_T) in
      if size_t_of new_offset > length data
      then Fail (InvalidArgument ''Data too short when trying to read value'')
      else if offset < 0 \<or> new_offset < offset then Undefined OutOfBoundsRead
      else Value (le_nat (slice data offset new_offset), new_offset))"

text \<open>\<^verbatim>\<open>ReadString\<close>: here \<^verbatim>\<open>*offset + expected_length\<close> is a sum of two \<^verbatim>\<open>int\<close>s.\<close>

definition ReadString :: "byte list \<Rightarrow> int \<Rightarrow> int \<Rightarrow> (string \<times> int) outcome" where
  "ReadString data expected_length offset =
     (let new_offset = offset + expected_length in
      if new_offset > 2 ^ 31 - 1 \<or> new_offset < - (2 ^ 31) then Undefined SignedOverflow
      else if size_t_of new_offset > length data
      then Fail (InvalidArgument ''Data too short when trying to read string'')
      else if offset < 0 \<or> new_offset < offset then Undefined OutOfBoundsRead
      else Value (text_of (slice data offset new_offset), new_offset))"

section \<open>The encoder (wav_io.cc)\<close>

definition kuint16max :: nat where "kuint16max = 65535"
definition kuint32max :: nat where "kuint32max = 4294967295"
definition kint16min :: int where "kint16min = - 32768"
definition kint16max :: int where "kint16max = 32767"

text \<open>\<^verbatim>\<open>roundf\<close> rounds to the nearest integer, halfway cases away from zero.\<close>

definition roundf :: "real \<Rightarrow> int" where
  "roundf x = (if x \<ge> 0 then \<lfloor>x + 1 / 2\<rfloor> else \<lceil>x - 1 / 2\<rceil>)"

definition FloatToInt16Sample :: "real \<Rightarrow> int" where
  "FloatToInt16Sample data = min (max (roundf (data * 32768)) kint16min) kint16max"

definition Int16SampleToFloat :: "int \<Rightarrow> real" where
  "Int16SampleToFloat data = real_of_int data * (1 / 32768)"

text \<open>\<^verbatim>\<open>EncodeFixed16\<close> and \<^verbatim>\<open>EncodeFixed32\<close>: the argument is converted to the
  parameter's type (\<^verbatim>\<open>uint16_t\<close>, \<^verbatim>\<open>uint32_t\<close>) and copied out low byte first.\<close>

definition EncodeFixed16 :: "int \<Rightarrow> byte list" where
  "EncodeFixed16 v = (let u = nat (v mod 2 ^ 16) in [of_nat (u mod 256), of_nat (u div 256)])"

definition EncodeFixed32 :: "int \<Rightarrow> byte list" where
  "EncodeFixed32 v =
     (let u = nat (v mod 2 ^ 32) in
      [of_nat (u mod 256), of_nat (u div 256 mod 256),
       of_nat (u div 65536 mod 256), of_nat (u div 16777216)])"

definition kFormatChunkSize :: nat where "kFormatChunkSize = 16"
definition kCompressionCodePcm :: nat where "kCompressionCodePcm = 1"
definition kBitsPerSample :: nat where "kBitsPerSample = 16"
definition kBytesPerSample :: nat where "kBytesPerSample = kBitsPerSample div 8"
definition kHeaderSize :: nat where "kHeaderSize = 12 + 24 + 8"

text \<open>
  \<^verbatim>\<open>EncodeAudioAsS16LEWav(audio, sample_rate, num_channels, num_frames, wav_string)\<close>.
  The two pointers are options (\<open>None\<close> is the null pointer); \<open>audio\<close> points to the
  listed samples. The \<^verbatim>\<open>size_t\<close> arithmetic is modulo \<open>2^64\<close>. A \<open>Value\<close> is the
  content of \<^verbatim>\<open>*wav_string\<close> after the call; every \<open>Fail\<close> is returned before
  \<^verbatim>\<open>wav_string->resize\<close>, the first write to the output.
\<close>

definition EncodeAudioAsS16LEWav ::
  "real list option \<Rightarrow> nat \<Rightarrow> nat \<Rightarrow> nat \<Rightarrow> byte list option \<Rightarrow> byte list outcome" where
  "EncodeAudioAsS16LEWav audio sample_rate num_channels num_frames wav_string =
     (if audio = None then Fail (InvalidArgument ''audio is null'')
      else if wav_string = None then Fail (InvalidArgument ''wav_string is null'')
      else if sample_rate = 0 \<or> sample_rate > kuint32max
      then Fail (InvalidArgument
             (''sample_rate must be in (0, 2^32), got: '' @ decimal sample_rate))
      else if num_channels = 0 \<or> num_channels > kuint16max
      then Fail (InvalidArgument
             (''num_channels must be in (0, 2^16), got: '' @ decimal num_channels))
      else if num_frames = 0 then Fail (InvalidArgument ''num_frames must be positive.'')
      else
        let bytes_per_second = (sample_rate * kBytesPerSample) mod 2 ^ 64;
            num_samples = (num_frames * num_channels) mod 2 ^ 64;
            data_size = (num_samples * kBytesPerSample) mod 2 ^ 64;
            file_size = (kHeaderSize + (num_samples * kBytesPerSample) mod 2 ^ 64) mod 2 ^ 64;
            bytes_per_frame = (kBytesPerSample * num_channels) mod 2 ^ 64
        in
        if file_size > kuint32max
        then Fail (InvalidArgument ''Provided channels and frames cannot be encoded as a WAV.'')
        else if length (the audio) < num_samples then Undefined OutOfBoundsRead
        else Value
          (bytes_of kRiffChunkId @ EncodeFixed32 (int file_size - 8) @ bytes_of kRiffType
           @ bytes_of kFormatChunkId @ EncodeFixed32 (int kFormatChunkSize)
           @ EncodeFixed16 (int kCompressionCodePcm) @ EncodeFixed16 (int num_channels)
           @ EncodeFixed32 (int sample_rate) @ EncodeFixed32 (int bytes_per_second)
           @ EncodeFixed16 (int bytes_per_frame) @ EncodeFixed16 (int kBitsPerSample)
           @ bytes_of kDataChunkId @ EncodeFixed32 (int data_size)
           @ concat (map (\<lambda>sample. EncodeFixed16 (FloatToInt16Sample sample))
                       (take num_samples (the audio)))))"

section \<open>The decoder (wav_io.cc)\<close>

text \<open>
  The header part of \<^verbatim>\<open>DecodeLin16WaveAsFloatVector\<close>, up to the loop: the result is
  \<open>(channel_count, sample_rate, bytes_per_sample, offset)\<close>. The product
  \<^verbatim>\<open>bits_per_sample * *channel_count\<close> is computed in \<^verbatim>\<open>int\<close> (here
  \<open>bits_per_sample = 16\<close>, so it does not overflow), the product
  \<^verbatim>\<open>bytes_per_sample * (*sample_rate)\<close> in \<^verbatim>\<open>uint32_t\<close>.
\<close>

definition decode_header :: "byte list \<Rightarrow> (nat \<times> nat \<times> nat \<times> int) outcome" where
  "decode_header wav_data =
     TF_RETURN_IF_ERROR (ExpectText wav_data kRiffChunkId 0) (\<lambda>offset.
     TF_RETURN_IF_ERROR (ReadValue 4 wav_data offset) (\<lambda>(total_file_size, offset).
     TF_RETURN_IF_ERROR (ExpectText wav_data kRiffType offset) (\<lambda>offset.
     TF_RETURN_IF_ERROR (ExpectText wav_data kFormatChunkId offset) (\<lambda>offset.
     TF_RETURN_IF_ERROR (ReadValue 4 wav_data offset) (\<lambda>(format_chunk_size, offset).
     if format_chunk_size \<noteq> 16 \<and> format_chunk_size \<noteq> 18
     then Fail (InvalidArgument
            (''Bad file size for WAV: Expected 16 or 18, but got'' @ decimal format_chunk_size))
     else
     TF_RETURN_IF_ERROR (ReadValue 2 wav_data offset) (\<lambda>(audio_format, offset).
     if audio_format \<noteq> 1
     then Fail (InvalidArgument
            (''Bad audio format for WAV: Expected 1 (PCM), but got'' @ decimal audio_format))
     else
     TF_RETURN_IF_ERROR (ReadValue 2 wav_data offset) (\<lambda>(channel_count, offset).
     TF_RETURN_IF_ERROR (ReadValue 4 wav_data offset) (\<lambda>(sample_rate, offset).
     TF_RETURN_IF_ERROR (ReadValue 4 wav_data offset) (\<lambda>(bytes_per_second, offset).
     TF_RETURN_IF_ERROR (ReadValue 2 wav_data offset) (\<lambda>(bytes_per_sample, offset).
     TF_RETURN_IF_ERROR (ReadValue 2 wav_data offset) (\<lambda>(bits_per_sample, offset).
     if bits_per_sample \<noteq> 16
     then Fail (InvalidArgument
            (''Can only read 16-bit WAV files, but received '' @ decimal bits_per_sample))
     else
       let expected_bytes_per_sample = (bits_per_sample * channel_count + 7) div 8 in
       if bytes_per_sample \<noteq> expected_bytes_per_sample
       then Fail (InvalidArgument
              (''Bad bytes per sample in WAV header: Expected ''
               @ decimal expected_bytes_per_sample @ '' but got '' @ decimal bytes_per_sample))
       else
         let expected_bytes_per_second = (bytes_per_sample * sample_rate) mod 2 ^ 32 in
         if bytes_per_second \<noteq> expected_bytes_per_second
         then Fail (InvalidArgument
                (''Bad bytes per second in WAV header: Expected ''
                 @ decimal expected_bytes_per_second @ '' but got '' @ decimal bytes_per_second
                 @ '' (sample_rate='' @ decimal sample_rate
                 @ '', bytes_per_sample='' @ decimal bytes_per_sample @ '')''))
         else
           Value (channel_count, sample_rate, bytes_per_sample,
                  if format_chunk_size = 18 then offset + 2 else offset))))))))))))"

text \<open>The inner loop of the data chunk: \<open>data_count\<close> calls of
  \<^verbatim>\<open>ReadValue<int16_t>\<close>, each value converted and stored in turn.\<close>

fun read_samples :: "byte list \<Rightarrow> nat \<Rightarrow> int \<Rightarrow> (real list \<times> int) outcome" where
  "read_samples wav_data 0 offset = Value ([], offset)"
| "read_samples wav_data (Suc data_count) offset =
     TF_RETURN_IF_ERROR (ReadValue 2 wav_data offset) (\<lambda>(single_channel_value, offset).
     TF_RETURN_IF_ERROR (read_samples wav_data data_count offset) (\<lambda>(values, offset).
       Value (Int16SampleToFloat (int16_of single_channel_value) # values, offset)))"

text \<open>
  One iteration of the chunk loop, on the state
  \<open>(offset, was_data_found, float_values, sample_count)\<close>. The division
  \<^verbatim>\<open>chunk_size / bytes_per_sample\<close> is undefined for a zero divisor. In
  \<^verbatim>\<open>offset += chunk_size\<close> the sum is computed in \<^verbatim>\<open>uint32_t\<close> and converted to \<^verbatim>\<open>int\<close>.
\<close>

definition scan_step ::
  "byte list \<Rightarrow> nat \<Rightarrow> nat \<Rightarrow> int \<times> bool \<times> real list \<times> nat
     \<Rightarrow> (int \<times> bool \<times> real list \<times> nat) outcome" where
  "scan_step wav_data bytes_per_sample channel_count st =
     (case st of (offset, was_data_found, float_values, sample_count) \<Rightarrow>
     TF_RETURN_IF_ERROR (ReadString wav_data 4 offset) (\<lambda>(chunk_id, offset).
     TF_RETURN_IF_ERROR (ReadValue 4 wav_data offset) (\<lambda>(chunk_size, offset).
     if chunk_id = kDataChunkId then
       if was_data_found
       then Fail (InvalidArgument ''More than one data chunk found in WAV'')
       else if bytes_per_sample = 0 then Undefined DivisionByZero
       else
         let sample_count = chunk_size div bytes_per_sample;
             data_count = (sample_count * channel_count) mod 2 ^ 32
         in TF_RETURN_IF_ERROR (read_samples wav_data data_count offset) (\<lambda>(float_values, offset).
              Value (offset, True, float_values, sample_count))
     else Value (int32_of (offset + int chunk_size), was_data_found, float_values, sample_count))))"

text \<open>
  The loop \<^verbatim>\<open>while (offset < wav_length)\<close>, which compares as \<^verbatim>\<open>size_t\<close>. A chunk
  size can move the offset backwards, so the loop need not end: \<open>None\<close> is the run that
  never returns.
\<close>

partial_function (option) scan_chunks ::
  "byte list \<Rightarrow> nat \<Rightarrow> nat \<Rightarrow> int \<times> bool \<times> real list \<times> nat
     \<Rightarrow> (int \<times> bool \<times> real list \<times> nat) outcome option" where
  "scan_chunks wav_data bytes_per_sample channel_count st =
     (if size_t_of (fst st) < length wav_data
      then (case scan_step wav_data bytes_per_sample channel_count st of
              Value st' \<Rightarrow> scan_chunks wav_data bytes_per_sample channel_count st'
            | Fail s \<Rightarrow> Some (Fail s)
            | Undefined u \<Rightarrow> Some (Undefined u))
      else Some (Value st))"

declare scan_chunks.simps [code]

text \<open>
  \<^verbatim>\<open>DecodeLin16WaveAsFloatVector(wav_data, wav_length, ...)\<close>, with
  \<open>wav_length = length wav_data\<close>. A \<open>Value\<close> holds the four output parameters
  \<open>(float_values, sample_count, channel_count, sample_rate)\<close>.
\<close>

definition DecodeLin16WaveAsFloatVector ::
  "byte list \<Rightarrow> (real list \<times> nat \<times> nat \<times> nat) outcome option" where
  "DecodeLin16WaveAsFloatVector wav_data =
     (case decode_header wav_data of
        Fail s \<Rightarrow> Some (Fail s)
      | Undefined u \<Rightarrow> Some (Undefined u)
      | Value (channel_count, sample_rate, bytes_per_sample, offset) \<Rightarrow>
          (case scan_chunks wav_data bytes_per_sample channel_count (offset, False, [], 0) of
             None \<Rightarrow> None
           | Some (Fail s) \<Rightarrow> Some (Fail s)
           | Some (Undefined u) \<Rightarrow> Some (Undefined u)
           | Some (Value (offset, was_data_found, float_values, sample_count)) \<Rightarrow>
               if \<not> was_data_found
               then Some (Fail (InvalidArgument ''No data chunk found in WAV''))
               else Some (Value (float_values, sample_count, channel_count, sample_rate))))"

section \<open>The loudest-segment finder (main.cc)\<close>

definition volume :: "real list \<Rightarrow> real" where
  "volume xs = (\<Sum>x\<leftarrow>xs. \<bar>x\<bar>)"

text \<open>The body of the first loop, \<^verbatim>\<open>current_volume_sum += fabsf(input[i])\<close>.\<close>

definition accumulate :: "real list \<Rightarrow> nat \<Rightarrow> real \<Rightarrow> real" where
  "accumulate input i current_volume_sum = current_volume_sum + \<bar>input ! i\<bar>"

text \<open>The body of the second loop on the state
  \<open>(current_volume_sum, loudest_end_index, loudest_volume)\<close>.\<close>

definition slide :: "real list \<Rightarrow> nat \<Rightarrow> nat \<Rightarrow> real \<times> nat \<times> real \<Rightarrow> real \<times> nat \<times> real" where
  "slide input desired_samples i st =
     (case st of (current_volume_sum, loudest_end_index, loudest_volume) \<Rightarrow>
        let trailing_value = input ! (i - desired_samples);
            leading_value = input ! i;
            current_volume_sum = current_volume_sum - \<bar>trailing_value\<bar> + \<bar>leading_value\<bar>
        in if current_volume_sum > loudest_volume
           then (current_volume_sum, i, current_volume_sum)
           else (current_volume_sum, loudest_end_index, loudest_volume))"

text \<open>
  \<^verbatim>\<open>TrimToLoudestSegment(input, desired_samples, output)\<close>; the result is \<^verbatim>\<open>*output\<close>.
  \<^verbatim>\<open>desired_samples\<close> is an \<^verbatim>\<open>int64_t\<close>: when it is negative the second loop starts
  at a negative \<^verbatim>\<open>i\<close> and reads \<^verbatim>\<open>input[i]\<close>. Otherwise every index is within the
  vector, because \<^verbatim>\<open>desired_samples < input_size\<close> on this path.
\<close>

definition TrimToLoudestSegment :: "real list \<Rightarrow> int \<Rightarrow> real list outcome" where
  "TrimToLoudestSegment input desired_samples =
     (let input_size = int (length input) in
      if desired_samples \<ge> input_size then Value input
      else if desired_samples < 0 then Undefined OutOfBoundsRead
      else
        let d = nat desired_samples;
            current_volume_sum = fold (accumulate input) [0..<d] 0;
            (current_volume_sum, loudest_end_index, loudest_volume) =
               fold (slide input d) [d..<length input]
                 (current_volume_sum, d, current_volume_sum);
            loudest_start_index = loudest_end_index - d
        in Value (take d (drop loudest_start_index input)))"

section \<open>The trim pipeline (main.cc)\<close>

text \<open>
  The down-mix block of \<^verbatim>\<open>TrimFile\<close>; the result is the new \<^verbatim>\<open>wav_samples\<close>.
  \<^verbatim>\<open>sample_count / channel_count\<close> is an integer division, \<^verbatim>\<open>i * channel_count\<close> a
  product of two \<^verbatim>\<open>int\<close>s, and \<^verbatim>\<open>total / channel_count\<close> a division of floats.
\<close>

definition mono_sample :: "real list \<Rightarrow> nat \<Rightarrow> nat \<Rightarrow> real" where
  "mono_sample wav_samples channel_count i =
     (let frame_index = i * channel_count;
          total = fold (\<lambda>c total. total + wav_samples ! (frame_index + c)) [0..<channel_count] 0
      in total / real channel_count)"

definition downmix :: "real list \<Rightarrow> nat \<Rightarrow> nat \<Rightarrow> real list outcome" where
  "downmix wav_samples sample_count channel_count =
     (if channel_count \<noteq> 1 then
        if channel_count = 0 then Undefined DivisionByZero
        else
          let mono_sample_count = sample_count div channel_count in
          if mono_sample_count > 0 \<and> (mono_sample_count - 1) * channel_count > 2 ^ 31 - 1
          then Undefined SignedOverflow
          else if mono_sample_count * channel_count > length wav_samples
          then Undefined OutOfBoundsRead
          else Value (map (mono_sample wav_samples channel_count) [0..<mono_sample_count])
      else Value wav_samples)"

text \<open>
  \<^verbatim>\<open>(desired_length_ms * sample_rate) / 1000\<close> in \<^verbatim>\<open>int64_t\<close>: the division
  truncates towards zero, and a product outside the type is undefined.
\<close>

definition desired_samples_of :: "int \<Rightarrow> nat \<Rightarrow> int outcome" where
  "desired_samples_of desired_length_ms sample_rate =
     (let product = desired_length_ms * int sample_rate in
      if product > 2 ^ 63 - 1 \<or> product < - (2 ^ 63) then Undefined SignedOverflow
      else Value (if product \<ge> 0 then product div 1000 else - ((- product) div 1000)))"

text \<open>
  The value of the float division \<^verbatim>\<open>total_volume / desired_samples\<close> under IEEE 754,
  where a zero divisor gives an infinity or, for \<open>0 / 0\<close>, a NaN; and the comparison
  \<^verbatim>\<open>average_volume < min_volume\<close> with a finite \<^verbatim>\<open>min_volume\<close>, which is false for a NaN.
\<close>

datatype fp = Finite real | PosInf | NegInf | NaN

definition fp_div :: "real \<Rightarrow> int \<Rightarrow> fp" where
  "fp_div x n =
     (if n \<noteq> 0 then Finite (x / real_of_int n)
      else if x > 0 then PosInf else if x < 0 then NegInf else NaN)"

fun fp_less :: "fp \<Rightarrow> real \<Rightarrow> bool" where
  "fp_less (Finite x) y = (x < y)"
| "fp_less PosInf y = False"
| "fp_less NegInf y = True"
| "fp_less NaN y = False"

text \<open>\<^verbatim>\<open>v.data()\<close>: a vector that holds no storage gives the null pointer.\<close>

definition vector_data :: "real list \<Rightarrow> real list option" where
  "vector_data v = (if v = [] then None else Some v)"

text \<open>
  What one call of \<^verbatim>\<open>TrimFile\<close> does: the status it returns, the status of the
  encoder call (\<open>None\<close> when the encoder was not called), and the bytes written to the
  output file (\<open>None\<close> when no file was written).
\<close>

record trim_result =
  returned :: status
  save_wav_status :: "status option"
  output_file :: "byte list option"

text \<open>
  \<^verbatim>\<open>TrimFile(input_filename, output_filename, desired_length_ms, min_volume)\<close> on the
  content of the input file. \<open>None\<close> is a call that never returns, \<open>Inl\<close> undefined
  behaviour, \<open>Inr\<close> a call that returned. The down-mix, the computation of
  \<^verbatim>\<open>desired_samples\<close> and \<^verbatim>\<open>TrimToLoudestSegment\<close> return no status: their results are
  never a \<open>Fail\<close>, and the \<open>Fail\<close> branches below are there for the case distinction
  to be complete. The encoder's status is stored in \<^verbatim>\<open>save_wav_status\<close>, and
  \<^verbatim>\<open>output_wav_data\<close>, which a failed encoder call leaves empty, is written out.
\<close>

definition TrimFile :: "byte list \<Rightarrow> int \<Rightarrow> real \<Rightarrow> (ub + trim_result) option" where
  "TrimFile input_file desired_length_ms min_volume =
     (case DecodeLin16WaveAsFloatVector input_file of
        None \<Rightarrow> None
      | Some (Undefined u) \<Rightarrow> Some (Inl u)
      | Some (Fail load_wav_status) \<Rightarrow>
          Some (Inr \<lparr>returned = load_wav_status, save_wav_status = None, output_file = None\<rparr>)
      | Some (Value (wav_samples, sample_count, channel_count, sample_rate)) \<Rightarrow>
          (case downmix wav_samples sample_count channel_count of
             Undefined u \<Rightarrow> Some (Inl u)
           | Fail s \<Rightarrow> Some (Inl OutOfBoundsRead)
           | Value wav_samples \<Rightarrow>
          (case desired_samples_of desired_length_ms sample_rate of
             Undefined u \<Rightarrow> Some (Inl u)
           | Fail s \<Rightarrow> Some (Inl SignedOverflow)
           | Value desired_samples \<Rightarrow>
          (case TrimToLoudestSegment wav_samples desired_samples of
             Undefined u \<Rightarrow> Some (Inl u)
           | Fail s \<Rightarrow> Some (Inl OutOfBoundsRead)
           | Value trimmed_samples \<Rightarrow>
               let total_volume = volume trimmed_samples;
                   average_volume = fp_div total_volume desired_samples
               in
               if fp_less average_volume min_volume
               then Some (Inr \<lparr>returned = StatusOK, save_wav_status = None, output_file = None\<rparr>)
               else
                 (case EncodeAudioAsS16LEWav (vector_data trimmed_samples) sample_rate 1
                         (length trimmed_samples) (Some []) of
                    Undefined u \<Rightarrow> Some (Inl u)
                  | Fail s \<Rightarrow>
                      Some (Inr \<lparr>returned = StatusOK, save_wav_status = Some s,
                                  output_file = Some []\<rparr>)
                  | Value output_wav_data \<Rightarrow>
                      Some (Inr \<lparr>returned = StatusOK, save_wav_status = Some StatusOK,
                                  output_file = Some output_wav_data\<rparr>))))))"

section \<open>The float computations of the pipeline in binary32\<close>

text \<open>
  The definitions above carry out the float computations of \<^verbatim>\<open>main.cc\<close> (the running
  sums, the two divisions) over the reals. The definitions of this section carry them out
  in IEEE 754 binary32 with rounding to nearest, ties to even, after every operation, which
  is how the program computes when \<^verbatim>\<open>float\<close> expressions are evaluated in their own type.
  A \<^verbatim>\<open>float\<close> is an \<open>fp\<close>; the sign of a zero is not modelled (no operation below depends
  on it: the only zero divisor is the conversion of the integer 0).

  \<open>spacing x\<close> is the distance between neighbouring binary32 values around \<open>x > 0\<close>: it
  is 1 for \<open>x\<close> in \<open>[2^23, 2^24)\<close>, doubles while \<open>x / q\<close> is at least \<open>2^24\<close>, and halves
  while \<open>x / q\<close> is below \<open>2^23\<close>, at most 149 times (\<open>2^-149\<close> is the spacing of the
  subnormal numbers).
\<close>

function spacing_up :: "real \<Rightarrow> real \<Rightarrow> real" where
  "spacing_up x q = (if 0 < q \<and> 16777216 \<le> x / q then spacing_up x (2 * q) else q)"
  by pat_completeness auto
termination
proof (relation "measure (\<lambda>(x, q). nat \<lfloor>x / q\<rfloor>)")
  show "wf (measure (\<lambda>(x, q). nat \<lfloor>x / q\<rfloor>))"
    by simp
next
  fix x q :: real
  assume a: "0 < q \<and> 16777216 \<le> x / q"
  define y where "y = x / q"
  have y: "16777216 \<le> y" using a by (simp add: y_def)
  have "y / 2 \<le> y - 1" using y by simp
  then have "\<lfloor>y / 2\<rfloor> \<le> \<lfloor>y - 1\<rfloor>" by (rule floor_mono)
  then have lt: "\<lfloor>y / 2\<rfloor> < \<lfloor>y\<rfloor>" by simp
  have pos: "0 < \<lfloor>y\<rfloor>" using y by linarith
  have e: "x / (2 * q) = y / 2" by (simp add: y_def)
  have "nat \<lfloor>y / 2\<rfloor> < nat \<lfloor>y\<rfloor>" using lt pos by linarith
  then show "((x, 2 * q), (x, q)) \<in> measure (\<lambda>(x, q). nat \<lfloor>x / q\<rfloor>)"
    unfolding in_measure prod.case e y_def .
qed

declare spacing_up.simps [simp del]

fun spacing_down :: "nat \<Rightarrow> real \<Rightarrow> real \<Rightarrow> real" where
  "spacing_down 0 x q = q"
| "spacing_down (Suc n) x q = (if x / q < 8388608 then spacing_down n x (q / 2) else q)"

definition spacing :: "real \<Rightarrow> real" where
  "spacing x = (if 16777216 \<le> x then spacing_up x 1 else spacing_down 149 x 1)"

text \<open>The integer nearest to \<open>m\<close>, the even one of the two when \<open>m\<close> is halfway.\<close>

definition round_even :: "real \<Rightarrow> int" where
  "round_even m =
     (let n = \<lfloor>m\<rfloor>; r = m - real_of_int n
      in if r < 1 / 2 then n else if 1 / 2 < r then n + 1 else if even n then n else n + 1)"

definition FLT_MAX :: real where
  "FLT_MAX = 16777215 * 2 ^ 104"

text \<open>The binary32 value of a real result: the nearest multiple of the spacing, an
  infinity when that exceeds \<^verbatim>\<open>FLT_MAX\<close>.\<close>

definition round32 :: "real \<Rightarrow> fp" where
  "round32 x =
     (if x = 0 then Finite 0
      else
        let a = \<bar>x\<bar>;
            q = spacing a;
            r = real_of_int (round_even (a / q)) * q
        in if FLT_MAX < r then (if 0 < x then PosInf else NegInf)
           else Finite (if 0 < x then r else - r))"

text \<open>\<^verbatim>\<open>fabsf\<close>, negation, \<open>+\<close>, \<open>-\<close>, \<open>/\<close> and \<open>>\<close> on floats.\<close>

fun fp_abs :: "fp \<Rightarrow> fp" where
  "fp_abs (Finite a) = Finite \<bar>a\<bar>"
| "fp_abs PosInf = PosInf"
| "fp_abs NegInf = PosInf"
| "fp_abs NaN = NaN"

fun fp_neg :: "fp \<Rightarrow> fp" where
  "fp_neg (Finite a) = Finite (- a)"
| "fp_neg PosInf = NegInf"
| "fp_neg NegInf = PosInf"
| "fp_neg NaN = NaN"

fun fp_add :: "fp \<Rightarrow> fp \<Rightarrow> fp" where
  "fp_add (Finite a) (Finite b) = round32 (a + b)"
| "fp_add NaN y = NaN"
| "fp_add x NaN = NaN"
| "fp_add PosInf NegInf = NaN"
| "fp_add NegInf PosInf = NaN"
| "fp_add PosInf y = PosInf"
| "fp_add x PosInf = PosInf"
| "fp_add NegInf y = NegInf"
| "fp_add x NegInf = NegInf"

definition fp_sub :: "fp \<Rightarrow> fp \<Rightarrow> fp" where
  "fp_sub x y = fp_add x (fp_neg y)"

fun fp_divide :: "fp \<Rightarrow> fp \<Rightarrow> fp" where
  "fp_divide (Finite a) (Finite b) =
     (if b \<noteq> 0 then round32 (a / b)
      else if 0 < a then PosInf else if a < 0 then NegInf else NaN)"
| "fp_divide NaN y = NaN"
| "fp_divide x NaN = NaN"
| "fp_divide (Finite a) y = Finite 0"
| "fp_divide PosInf (Finite b) = (if 0 \<le> b then PosInf else NegInf)"
| "fp_divide NegInf (Finite b) = (if 0 \<le> b then NegInf else PosInf)"
| "fp_divide x y = NaN"

fun fp_greater :: "fp \<Rightarrow> fp \<Rightarrow> bool" where
  "fp_greater (Finite a) (Finite b) = (b < a)"
| "fp_greater NaN y = False"
| "fp_greater x NaN = False"
| "fp_greater PosInf PosInf = False"
| "fp_greater PosInf y = True"
| "fp_greater x PosInf = False"
| "fp_greater NegInf y = False"
| "fp_greater x NegInf = True"

text \<open>The down-mix block with \<^verbatim>\<open>total += wav_samples[frame_index + c]\<close> and
  \<^verbatim>\<open>total / channel_count\<close> in binary32. The decoder's samples are finite.\<close>

definition mono_sample_f32 :: "real list \<Rightarrow> nat \<Rightarrow> nat \<Rightarrow> fp" where
  "mono_sample_f32 wav_samples channel_count i =
     (let frame_index = i * channel_count;
          total = fold (\<lambda>c total. fp_add total (Finite (wav_samples ! (frame_index + c))))
                    [0..<channel_count] (Finite 0)
      in fp_divide total (round32 (real channel_count)))"

definition downmix_f32 :: "real list \<Rightarrow> nat \<Rightarrow> nat \<Rightarrow> fp list outcome" where
  "downmix_f32 wav_samples sample_count channel_count =
     (if channel_count \<noteq> 1 then
        if channel_count = 0 then Undefined DivisionByZero
        else
          let mono_sample_count = sample_count div channel_count in
          if mono_sample_count > 0 \<and> (mono_sample_count - 1) * channel_count > 2 ^ 31 - 1
          then Undefined SignedOverflow
          else if mono_sample_count * channel_count > length wav_samples
          then Undefined OutOfBoundsRead
          else Value (map (mono_sample_f32 wav_samples channel_count) [0..<mono_sample_count])
      else Value (map Finite wav_samples))"

text \<open>\<^verbatim>\<open>TrimToLoudestSegment\<close> with the two running sums in binary32.\<close>

definition accumulate_f32 :: "fp list \<Rightarrow> nat \<Rightarrow> fp \<Rightarrow> fp" where
  "accumulate_f32 input i current_volume_sum = fp_add current_volume_sum (fp_abs (input ! i))"

definition slide_f32 :: "fp list \<Rightarrow> nat \<Rightarrow> nat \<Rightarrow> fp \<times> nat \<times> fp \<Rightarrow> fp \<times> nat \<times> fp" where
  "slide_f32 input desired_samples i st =
     (case st of (current_volume_sum, loudest_end_index, loudest_volume) \<Rightarrow>
        let trailing_value = input ! (i - desired_samples);
            current_volume_sum = fp_sub current_volume_sum (fp_abs trailing_value);
            leading_value = input ! i;
            current_volume_sum = fp_add current_volume_sum (fp_abs leading_value)
        in if fp_greater current_volume_sum loudest_volume
           then (current_volume_sum, i, current_volume_sum)
           else (current_volume_sum, loudest_end_index, loudest_volume))"

definition TrimToLoudestSegment_f32 :: "fp list \<Rightarrow> int \<Rightarrow> fp list outcome" where
  "TrimToLoudestSegment_f32 input desired_samples =
     (let input_size = int (length input) in
      if desired_samples \<ge> input_size then Value input
      else if desired_samples < 0 then Undefined OutOfBoundsRead
      else
        let d = nat desired_samples;
            current_volume_sum = fold (accumulate_f32 input) [0..<d] (Finite 0);
            (current_volume_sum, loudest_end_index, loudest_volume) =
               fold (slide_f32 input d) [d..<length input]
                 (current_volume_sum, d, current_volume_sum);
            loudest_start_index = loudest_end_index - d
        in Value (take d (drop loudest_start_index input)))"

text \<open>\<^verbatim>\<open>total_volume\<close>, the running sum of \<^verbatim>\<open>fabsf(trimmed_sample)\<close> from \<open>0.0f\<close> in the
  order of the vector, and \<^verbatim>\<open>average_volume = total_volume / desired_samples\<close>, where the
  \<^verbatim>\<open>int64_t\<close> divisor is converted to \<^verbatim>\<open>float\<close> first.\<close>

definition volume_f32 :: "fp list \<Rightarrow> fp" where
  "volume_f32 trimmed_samples =
     fold (\<lambda>trimmed_sample total_volume. fp_add total_volume (fp_abs trimmed_sample))
       trimmed_samples (Finite 0)"

definition average_volume_f32 :: "fp list \<Rightarrow> int \<Rightarrow> fp" where
  "average_volume_f32 trimmed_samples desired_samples =
     fp_divide (volume_f32 trimmed_samples) (round32 (real_of_int desired_samples))"

text \<open>
  The encoder's argument: \<^verbatim>\<open>FloatToInt16Sample\<close> clamps, so that an infinity gives
  what 1 or -1 gives; for a NaN the conversion to \<^verbatim>\<open>int16_t\<close> is undefined.
\<close>

fun float_operand :: "fp \<Rightarrow> real" where
  "float_operand (Finite x) = x"
| "float_operand PosInf = 1"
| "float_operand NegInf = - 1"
| "float_operand NaN = 0"

text \<open>\<^verbatim>\<open>TrimFile\<close> with the float computations in binary32; everything else is as in
  \<open>TrimFile\<close> above.\<close>

definition TrimFile_f32 :: "byte list \<Rightarrow> int \<Rightarrow> real \<Rightarrow> (ub + trim_result) option" where
  "TrimFile_f32 input_file desired_length_ms min_volume =
     (case DecodeLin16WaveAsFloatVector input_file of
        None \<Rightarrow> None
      | Some (Undefined u) \<Rightarrow> Some (Inl u)
      | Some (Fail load_wav_status) \<Rightarrow>
          Some (Inr \<lparr>returned = load_wav_status, save_wav_status = None, output_file = None\<rparr>)
      | Some (Value (wav_samples, sample_count, channel_count, sample_rate)) \<Rightarrow>
          (case downmix_f32 wav_samples sample_count channel_count of
             Undefined u \<Rightarrow> Some (Inl u)
           | Fail s \<Rightarrow> Some (Inl OutOfBoundsRead)
           | Value wav_samples \<Rightarrow>
          (case desired_samples_of desired_length_ms sample_rate of
             Undefined u \<Rightarrow> Some (Inl u)
           | Fail s \<Rightarrow> Some (Inl SignedOverflow)
           | Value desired_samples \<Rightarrow>
          (case TrimToLoudestSegment_f32 wav_samples desired_samples of
             Undefined u \<Rightarrow> Some (Inl u)
           | Fail s \<Rightarrow> Some (Inl OutOfBoundsRead)
           | Value trimmed_samples \<Rightarrow>
               let average_volume = average_volume_f32 trimmed_samples desired_samples in
               if fp_less average_volume min_volume
               then Some (Inr \<lparr>returned = StatusOK, save_wav_status = None, output_file = None\<rparr>)
               else
                 (case EncodeAudioAsS16LEWav (vector_data (map float_operand trimmed_samples))
                         sample_rate 1 (length trimmed_samples) (Some []) of
                    Undefined u \<Rightarrow> Some (Inl u)
                  | Fail s \<Rightarrow>
                      Some (Inr \<lparr>returned = StatusOK, save_wav_status = Some s,
                                  output_file = Some []\<rparr>)
                  | Value output_wav_data \<Rightarrow>
                      if NaN \<in> set trimmed_samples then Some (Inl FloatToIntegerRange)
                      else Some (Inr \<lparr>returned = StatusOK, save_wav_status = Some StatusOK,
                                       output_file = Some output_wav_data\<rparr>))))))"

section \<open>Header fields, loop iterations and example files\<close>

text \<open>The fields of the \<^verbatim>\<open>RiffChunk\<close> and \<^verbatim>\<open>FormatChunk\<close> structs, at their byte
  positions in a buffer.\<close>

definition header_field :: "byte list \<Rightarrow> nat \<Rightarrow> nat \<Rightarrow> nat" where
  "header_field wav_data pos sizeof_T = le_nat (slice wav_data (int pos) (int pos + int sizeof_T))"

definition header_text :: "byte list \<Rightarrow> nat \<Rightarrow> string" where
  "header_text wav_data pos = text_of (slice wav_data (int pos) (int pos + 4))"

definition fmt_chunk_size_of :: "byte list \<Rightarrow> nat" where
  "fmt_chunk_size_of wav_data = header_field wav_data 16 4"

definition compression_code_of :: "byte list \<Rightarrow> nat" where
  "compression_code_of wav_data = header_field wav_data 20 2"

definition channel_numbers_of :: "byte list \<Rightarrow> nat" where
  "channel_numbers_of wav_data = header_field wav_data 22 2"

definition sample_rate_of :: "byte list \<Rightarrow> nat" where
  "sample_rate_of wav_data = header_field wav_data 24 4"

definition bytes_per_second_of :: "byte list \<Rightarrow> nat" where
  "bytes_per_second_of wav_data = header_field wav_data 28 4"

definition bytes_per_frame_of :: "byte list \<Rightarrow> nat" where
  "bytes_per_frame_of wav_data = header_field wav_data 32 2"

definition bits_per_sample_of :: "byte list \<Rightarrow> nat" where
  "bits_per_sample_of wav_data = header_field wav_data 34 2"

text \<open>The buffer holds the 36 header bytes and passes every check that comes before the
  two arithmetic checks of the format chunk.\<close>

definition format_read :: "byte list \<Rightarrow> bool" where
  "format_read wav_data =
     (36 \<le> length wav_data
      \<and> header_text wav_data 0 = kRiffChunkId
      \<and> header_text wav_data 8 = kRiffType
      \<and> header_text wav_data 12 = kFormatChunkId
      \<and> (fmt_chunk_size_of wav_data = 16 \<or> fmt_chunk_size_of wav_data = 18)
      \<and> compression_code_of wav_data = 1
      \<and> bits_per_sample_of wav_data = 16)"

text \<open>One iteration of the chunk loop that runs and ends without a return.\<close>

definition scan_next ::
  "byte list \<Rightarrow> nat \<Rightarrow> nat \<Rightarrow> int \<times> bool \<times> real list \<times> nat
     \<Rightarrow> int \<times> bool \<times> real list \<times> nat \<Rightarrow> bool" where
  "scan_next wav_data bytes_per_sample channel_count st st' =
     (size_t_of (fst st) < length wav_data
      \<and> scan_step wav_data bytes_per_sample channel_count st = Value st')"

text \<open>Example files: the 36 header bytes with the given field values (the RIFF size
  field, which the decoder discards, is 0), and a chunk with a declared size.\<close>

definition riff_fmt :: "nat \<Rightarrow> nat \<Rightarrow> nat \<Rightarrow> nat \<Rightarrow> nat \<Rightarrow> nat \<Rightarrow> nat \<Rightarrow> byte list" where
  "riff_fmt format_chunk_size compression_code channel_numbers sample_rate bytes_per_second
      bytes_per_frame bits_per_sample =
     bytes_of ''RIFF'' @ EncodeFixed32 0 @ bytes_of ''WAVE''
     @ bytes_of ''fmt '' @ EncodeFixed32 (int format_chunk_size)
     @ EncodeFixed16 (int compression_code) @ EncodeFixed16 (int channel_numbers)
     @ EncodeFixed32 (int sample_rate) @ EncodeFixed32 (int bytes_per_second)
     @ EncodeFixed16 (int bytes_per_frame) @ EncodeFixed16 (int bits_per_sample)"

definition chunk :: "string \<Rightarrow> nat \<Rightarrow> byte list \<Rightarrow> byte list" where
  "chunk chunk_id chunk_data_size payload =
     bytes_of chunk_id @ EncodeFixed32 (int chunk_data_size) @ payload"

text \<open>A mono header at 16 kHz, and the files used as concrete inputs below. The sample
  bytes \<open>[0, 64]\<close> are the \<^verbatim>\<open>int16_t\<close> 16384, decoded as \<open>1/2\<close>.\<close>

definition mono_16k :: "byte list" where
  "mono_16k = riff_fmt 16 1 1 16000 32000 2 16"

definition wav_mono :: "byte list" where
  "wav_mono = mono_16k @ chunk ''data'' 2 [0, 64]"

definition wav_two_data_chunks :: "byte list" where
  "wav_two_data_chunks = mono_16k @ chunk ''data'' 2 [0, 64] @ chunk ''data'' 2 [0, 64]"

definition wav_no_data_chunk :: "byte list" where
  "wav_no_data_chunk = mono_16k @ chunk ''LIST'' 2 [0, 0]"

definition wav_truncated_tail :: "byte list" where
  "wav_truncated_tail = mono_16k @ chunk ''data'' 2 [0, 64] @ chunk ''LIST'' 1000 []"

definition wav_bad_frame_size :: "byte list" where
  "wav_bad_frame_size = riff_fmt 16 1 1 16000 32000 4 16 @ chunk ''data'' 2 [0, 64]"

definition wav_bad_byte_rate :: "byte list" where
  "wav_bad_byte_rate = riff_fmt 16 1 2 16000 32000 4 16 @ chunk ''data'' 4 [0, 0, 0, 0]"

definition wav_wrapped_rate :: "byte list" where
  "wav_wrapped_rate = riff_fmt 16 1 1 2147483648 0 2 16 @ chunk ''data'' 2 [0, 64]"

definition wav_rate_zero :: "byte list" where
  "wav_rate_zero = riff_fmt 16 1 1 0 0 2 16 @ chunk ''data'' 2 [0, 64]"

definition wav_empty_data :: "byte list" where
  "wav_empty_data = mono_16k @ chunk ''data'' 0 []"

definition wav_stereo :: "byte list" where
  "wav_stereo = riff_fmt 16 1 2 16000 64000 4 16
                @ chunk ''data'' 8 [0, 64, 0, 192, 0, 32, 0, 224]"

definition wav_third :: "byte list" where
  "wav_third = riff_fmt 16 1 1 3 6 2 16 @ chunk ''data'' 6 [1, 0, 0, 0, 0, 0]"

definition wav_quiet :: "byte list" where
  "wav_quiet = riff_fmt 16 1 1 2 4 2 16 @ chunk ''data'' 4 [1, 0, 0, 0]"

text \<open>The value of \<^verbatim>\<open>file_size\<close> that the encoder computes, in \<^verbatim>\<open>size_t\<close>.\<close>

definition file_size_of :: "nat \<Rightarrow> nat \<Rightarrow> nat" where
  "file_size_of num_frames num_channels =
     (kHeaderSize + (((num_frames * num_channels) mod 2 ^ 64) * kBytesPerSample) mod 2 ^ 64)
       mod 2 ^ 64"

text \<open>The 48 bytes that the encoder writes for one stereo frame of silence at 16 kHz.\<close>

definition wav_encoded_stereo :: "byte list" where
  "wav_encoded_stereo =
     [82, 73, 70, 70, 40, 0, 0, 0, 87, 65, 86, 69,
      102, 109, 116, 32, 16, 0, 0, 0, 1, 0, 2, 0, 128, 62, 0, 0, 0, 125, 0, 0, 4, 0, 16, 0,
      100, 97, 116, 97, 4, 0, 0, 0, 0, 0, 0, 0]"

text \<open>What a sample becomes after encoding and decoding, and the 44 header bytes that
  the encoder writes for mono audio (\<open>encoded_samples\<close> are the sample bytes after it).\<close>

definition quantize :: "real \<Rightarrow> real" where
  "quantize x = Int16SampleToFloat (FloatToInt16Sample x)"

definition mono_header :: "nat \<Rightarrow> nat \<Rightarrow> byte list" where
  "mono_header sample_rate num_samples =
     bytes_of ''RIFF'' @ EncodeFixed32 (int (36 + 2 * num_samples)) @ bytes_of ''WAVE''
     @ bytes_of ''fmt '' @ EncodeFixed32 16 @ EncodeFixed16 1 @ EncodeFixed16 1
     @ EncodeFixed32 (int sample_rate) @ EncodeFixed32 (int (2 * sample_rate))
     @ EncodeFixed16 2 @ EncodeFixed16 16
     @ bytes_of ''data'' @ EncodeFixed32 (int (2 * num_samples))"

abbreviation encoded_samples :: "real list \<Rightarrow> byte list" where
  "encoded_samples audio \<equiv>
     concat (map (\<lambda>sample. EncodeFixed16 (FloatToInt16Sample sample)) audio)"

section \<open>Properties of the loudest-segment finder\<close>

lemma TrimToLoudestSegment_whole_buffer:
  "int (length input) \<le> desired_samples \<Longrightarrow> TrimToLoudestSegment input desired_samples = Value input"
  by (simp add: TrimToLoudestSegment_def)

text \<open>
  C1. The claim: a window at least as long as the buffer returns the whole buffer, and
  otherwise the result is the earliest window of the requested length whose sum of
  absolute values is maximal. On the buffer \<open>[0,0,0,10,10,10,0,0,0]\<close> with window
  length 3 the code returns \<open>[0,10,10]\<close>, the window at offset 2 of volume 20, while the
  window at offset 3 has volume 30: when the running sum for the window ending after
  index \<open>i\<close> is a new maximum, the code records \<open>i\<close> as the end index, which is one short.
\<close>

theorem TrimToLoudestSegment_off_by_one:
  "TrimToLoudestSegment [0, 0, 0, 10, 10, 10, 0, 0, 0] 3 = Value [0, 10, 10]
   \<and> volume [0, 10, 10] = 20
   \<and> volume (take 3 (drop 3 [0, 0, 0, 10, 10, 10, 0, 0, 0])) = 30"
  by (simp add: TrimToLoudestSegment_def accumulate_def slide_def volume_def upt_rec)

section \<open>Properties of the decoder\<close>

lemmas header_unfold = decode_header_def TF_RETURN_IF_ERROR_def ExpectText_def ReadValue_def
  int32_of_def size_t_of_def kRiffChunkId_def kRiffType_def kFormatChunkId_def Let_def

lemmas field_defs = header_field_def header_text_def fmt_chunk_size_of_def
  compression_code_of_def channel_numbers_of_def sample_rate_of_def bytes_per_second_of_def
  bytes_per_frame_of_def bits_per_sample_of_def

lemma decode_header_Value:
  assumes "decode_header wav_data = Value (channel_count, sample_rate, bytes_per_sample, offset)"
  shows "format_read wav_data
    \<and> channel_numbers_of wav_data = channel_count
    \<and> sample_rate_of wav_data = sample_rate
    \<and> bytes_per_frame_of wav_data = bytes_per_sample
    \<and> bytes_per_frame_of wav_data = (bits_per_sample_of wav_data * channel_numbers_of wav_data + 7) div 8
    \<and> bytes_per_second_of wav_data = (bytes_per_frame_of wav_data * sample_rate_of wav_data) mod 2 ^ 32
    \<and> offset = (if fmt_chunk_size_of wav_data = 18 then 38 else 36)"
  using assms
  by (auto simp add: header_unfold field_defs format_read_def split: if_splits)

lemma decode_header_Fail:
  "decode_header wav_data = Fail s \<Longrightarrow> \<exists>msg. s = InvalidArgument msg"
  by (auto simp add: header_unfold split: if_splits)

lemma decode_header_not_Undefined: "decode_header wav_data \<noteq> Undefined u"
  by (simp add: header_unfold split: if_splits)

lemma decode_header_bytes_per_frame_message:
  assumes "format_read wav_data"
    and "bytes_per_frame_of wav_data \<noteq> (bits_per_sample_of wav_data * channel_numbers_of wav_data + 7) div 8"
  shows "decode_header wav_data = Fail (InvalidArgument
           (''Bad bytes per sample in WAV header: Expected ''
            @ decimal ((bits_per_sample_of wav_data * channel_numbers_of wav_data + 7) div 8)
            @ '' but got '' @ decimal (bytes_per_frame_of wav_data)))"
  using assms
  by (auto simp add: header_unfold field_defs format_read_def)

lemma decode_header_bytes_per_second_message:
  assumes "format_read wav_data"
    and "bytes_per_frame_of wav_data = (bits_per_sample_of wav_data * channel_numbers_of wav_data + 7) div 8"
    and "bytes_per_second_of wav_data \<noteq> (bytes_per_frame_of wav_data * sample_rate_of wav_data) mod 2 ^ 32"
  shows "decode_header wav_data = Fail (InvalidArgument
           (''Bad bytes per second in WAV header: Expected ''
            @ decimal ((bytes_per_frame_of wav_data * sample_rate_of wav_data) mod 2 ^ 32)
            @ '' but got '' @ decimal (bytes_per_second_of wav_data)
            @ '' (sample_rate='' @ decimal (sample_rate_of wav_data)
            @ '', bytes_per_sample='' @ decimal (bytes_per_frame_of wav_data) @ '')''))"
  using assms
  by (auto simp add: header_unfold field_defs format_read_def)

lemma Decode_header_Fail:
  "decode_header wav_data = Fail s \<Longrightarrow> DecodeLin16WaveAsFloatVector wav_data = Some (Fail s)"
  by (simp add: DecodeLin16WaveAsFloatVector_def)

lemmas file_defs = mono_16k_def wav_mono_def wav_two_data_chunks_def wav_no_data_chunk_def
  wav_truncated_tail_def wav_bad_frame_size_def wav_bad_byte_rate_def wav_wrapped_rate_def
  wav_rate_zero_def wav_empty_data_def wav_stereo_def wav_third_def wav_quiet_def riff_fmt_def
  chunk_def
  bytes_of_def
  EncodeFixed16_def EncodeFixed32_def

lemmas reader_defs = ExpectText_def ReadValue_def ReadString_def int32_of_def size_t_of_def
  slice_def text_of_def kRiffChunkId_def kRiffType_def kFormatChunkId_def kDataChunkId_def
  TF_RETURN_IF_ERROR_def char_of_def bit_0 bit_Suc_0_iff

lemmas sample_defs = int16_of_def Int16SampleToFloat_def

lemma read_samples_unfold:
  "0 < data_count \<Longrightarrow> read_samples wav_data data_count offset =
     TF_RETURN_IF_ERROR (ReadValue 2 wav_data offset) (\<lambda>(single_channel_value, offset).
     TF_RETURN_IF_ERROR (read_samples wav_data (data_count - 1) offset) (\<lambda>(values, offset).
       Value (Int16SampleToFloat (int16_of single_channel_value) # values, offset)))"
  by (cases data_count) simp_all

lemma scan_chunks_done:
  "\<not> size_t_of (fst st) < length wav_data \<Longrightarrow> scan_chunks wav_data bps ch st = Some (Value st)"
  by (subst scan_chunks.simps) simp

lemma scan_chunks_next:
  "scan_next wav_data bps ch st st' \<Longrightarrow> scan_chunks wav_data bps ch st = scan_chunks wav_data bps ch st'"
  by (subst scan_chunks.simps) (simp add: scan_next_def)

lemma scan_chunks_Fail:
  "size_t_of (fst st) < length wav_data \<Longrightarrow> scan_step wav_data bps ch st = Fail s
     \<Longrightarrow> scan_chunks wav_data bps ch st = Some (Fail s)"
  by (subst scan_chunks.simps) simp

lemma scan_chunks_reach:
  "(scan_next wav_data bps ch)\<^sup>*\<^sup>* st st' \<Longrightarrow> scan_chunks wav_data bps ch st = scan_chunks wav_data bps ch st'"
  by (induction rule: rtranclp_induct) (simp_all add: scan_chunks_next)

lemma scan_step_second_data_chunk:
  assumes "ReadString wav_data 4 offset = Value (kDataChunkId, offset1)"
    and "ReadValue 4 wav_data offset1 = Value (chunk_size, offset2)"
  shows "scan_step wav_data bps ch (offset, True, float_values, sample_count)
           = Fail (InvalidArgument ''More than one data chunk found in WAV'')"
  using assms by (simp add: scan_step_def TF_RETURN_IF_ERROR_def)


text \<open>Evaluation of the example files.\<close>

lemma header_mono_16k:
  "decode_header (mono_16k @ rest) = Value (1, 16000, 2, 36)"
  by (simp add: decode_header_def file_defs reader_defs)

lemma step_data_mono:
  "scan_step (mono_16k @ chunk ''data'' 2 [0, 64] @ rest) 2 1 (36, False, [], 0) = Value (46, True, [1 / 2], 1)"
  by (simp add: scan_step_def file_defs reader_defs read_samples_unfold sample_defs)

text \<open>
  C6, as amended. The decoder fails with \<open>InvalidArgument\<close> when the format-chunk size
  is neither 16 nor 18, when the compression code is not 1, when the bits per sample are
  not 16, when the declared bytes per frame differ from \<open>ceil (bits * channels / 8)\<close>, or
  when the declared bytes per second differ from the product of bytes per frame and
  sample rate taken modulo \<open>2^32\<close>, which is how the \<^verbatim>\<open>uint32_t\<close> product is computed.
  The messages of the two arithmetic checks contain the expected and the actual value in
  decimal.
\<close>

theorem decoder_rejects_bad_format:
  "(fmt_chunk_size_of wav_data \<noteq> 16 \<and> fmt_chunk_size_of wav_data \<noteq> 18
      \<or> compression_code_of wav_data \<noteq> 1
      \<or> bits_per_sample_of wav_data \<noteq> 16
      \<or> bytes_per_frame_of wav_data
           \<noteq> (bits_per_sample_of wav_data * channel_numbers_of wav_data + 7) div 8
      \<or> bytes_per_second_of wav_data
           \<noteq> (bytes_per_frame_of wav_data * sample_rate_of wav_data) mod 2 ^ 32
    \<longrightarrow> (\<exists>msg. DecodeLin16WaveAsFloatVector wav_data = Some (Fail (InvalidArgument msg))))
   \<and> (format_read wav_data
        \<and> bytes_per_frame_of wav_data
             \<noteq> (bits_per_sample_of wav_data * channel_numbers_of wav_data + 7) div 8
    \<longrightarrow> DecodeLin16WaveAsFloatVector wav_data = Some (Fail (InvalidArgument
           (''Bad bytes per sample in WAV header: Expected ''
            @ decimal ((bits_per_sample_of wav_data * channel_numbers_of wav_data + 7) div 8)
            @ '' but got '' @ decimal (bytes_per_frame_of wav_data)))))
   \<and> (format_read wav_data
        \<and> bytes_per_frame_of wav_data
             = (bits_per_sample_of wav_data * channel_numbers_of wav_data + 7) div 8
        \<and> bytes_per_second_of wav_data
             \<noteq> (bytes_per_frame_of wav_data * sample_rate_of wav_data) mod 2 ^ 32
    \<longrightarrow> DecodeLin16WaveAsFloatVector wav_data = Some (Fail (InvalidArgument
           (''Bad bytes per second in WAV header: Expected ''
            @ decimal ((bytes_per_frame_of wav_data * sample_rate_of wav_data) mod 2 ^ 32)
            @ '' but got '' @ decimal (bytes_per_second_of wav_data)
            @ '' (sample_rate='' @ decimal (sample_rate_of wav_data)
            @ '', bytes_per_sample='' @ decimal (bytes_per_frame_of wav_data) @ '')''))))"
proof (intro conjI impI)
  assume bad: "fmt_chunk_size_of wav_data \<noteq> 16 \<and> fmt_chunk_size_of wav_data \<noteq> 18
      \<or> compression_code_of wav_data \<noteq> 1
      \<or> bits_per_sample_of wav_data \<noteq> 16
      \<or> bytes_per_frame_of wav_data
           \<noteq> (bits_per_sample_of wav_data * channel_numbers_of wav_data + 7) div 8
      \<or> bytes_per_second_of wav_data
           \<noteq> (bytes_per_frame_of wav_data * sample_rate_of wav_data) mod 2 ^ 32"
  show "\<exists>msg. DecodeLin16WaveAsFloatVector wav_data = Some (Fail (InvalidArgument msg))"
  proof (cases "decode_header wav_data")
    case (Value r)
    obtain channel_count sample_rate bytes_per_sample offset
      where "r = (channel_count, sample_rate, bytes_per_sample, offset)"
      by (cases r) auto
    with Value have "format_read wav_data
        \<and> bytes_per_frame_of wav_data
             = (bits_per_sample_of wav_data * channel_numbers_of wav_data + 7) div 8
        \<and> bytes_per_second_of wav_data
             = (bytes_per_frame_of wav_data * sample_rate_of wav_data) mod 2 ^ 32"
      using decode_header_Value by blast
    with bad show ?thesis by (auto simp add: format_read_def)
  next
    case (Fail s)
    then show ?thesis using decode_header_Fail Decode_header_Fail by blast
  next
    case (Undefined u)
    then show ?thesis using decode_header_not_Undefined by blast
  qed
next
  assume "format_read wav_data
        \<and> bytes_per_frame_of wav_data
             \<noteq> (bits_per_sample_of wav_data * channel_numbers_of wav_data + 7) div 8"
  then show "DecodeLin16WaveAsFloatVector wav_data = Some (Fail (InvalidArgument
           (''Bad bytes per sample in WAV header: Expected ''
            @ decimal ((bits_per_sample_of wav_data * channel_numbers_of wav_data + 7) div 8)
            @ '' but got '' @ decimal (bytes_per_frame_of wav_data))))"
    by (intro Decode_header_Fail decode_header_bytes_per_frame_message) simp_all
next
  assume "format_read wav_data
        \<and> bytes_per_frame_of wav_data
             = (bits_per_sample_of wav_data * channel_numbers_of wav_data + 7) div 8
        \<and> bytes_per_second_of wav_data
             \<noteq> (bytes_per_frame_of wav_data * sample_rate_of wav_data) mod 2 ^ 32"
  then have "format_read wav_data"
    and "bytes_per_frame_of wav_data
           = (bits_per_sample_of wav_data * channel_numbers_of wav_data + 7) div 8"
    and "bytes_per_second_of wav_data
           \<noteq> (bytes_per_frame_of wav_data * sample_rate_of wav_data) mod 2 ^ 32"
    by blast+
  then show "DecodeLin16WaveAsFloatVector wav_data = Some (Fail (InvalidArgument
           (''Bad bytes per second in WAV header: Expected ''
            @ decimal ((bytes_per_frame_of wav_data * sample_rate_of wav_data) mod 2 ^ 32)
            @ '' but got '' @ decimal (bytes_per_second_of wav_data)
            @ '' (sample_rate='' @ decimal (sample_rate_of wav_data)
            @ '', bytes_per_sample='' @ decimal (bytes_per_frame_of wav_data) @ '')'')))"
    by (intro Decode_header_Fail decode_header_bytes_per_second_message)
qed

lemmas field_eval = field_defs format_read_def file_defs reader_defs

lemma fields_bad_frame_size:
  "format_read wav_bad_frame_size \<and> bytes_per_frame_of wav_bad_frame_size = 4
   \<and> bits_per_sample_of wav_bad_frame_size = 16 \<and> channel_numbers_of wav_bad_frame_size = 1"
  by (simp add: field_eval)

lemma fields_bad_byte_rate:
  "format_read wav_bad_byte_rate \<and> bytes_per_frame_of wav_bad_byte_rate = 4
   \<and> bits_per_sample_of wav_bad_byte_rate = 16 \<and> channel_numbers_of wav_bad_byte_rate = 2
   \<and> sample_rate_of wav_bad_byte_rate = 16000 \<and> bytes_per_second_of wav_bad_byte_rate = 32000"
  by (simp add: field_eval)

lemmas decimal_eval = decimal.simps digit_def

theorem decoder_rejects_bad_format_witness:
  "DecodeLin16WaveAsFloatVector wav_bad_frame_size = Some (Fail (InvalidArgument
     ''Bad bytes per sample in WAV header: Expected 2 but got 4''))
   \<and> DecodeLin16WaveAsFloatVector wav_bad_byte_rate = Some (Fail (InvalidArgument
     ''Bad bytes per second in WAV header: Expected 64000 but got 32000 (sample_rate=16000, bytes_per_sample=4)''))"
  using decoder_rejects_bad_format [of wav_bad_frame_size]
    decoder_rejects_bad_format [of wav_bad_byte_rate]
  by (simp add: fields_bad_frame_size fields_bad_byte_rate decimal_eval)

lemma fields_wrapped_rate:
  "bytes_per_frame_of wav_wrapped_rate = 2 \<and> sample_rate_of wav_wrapped_rate = 2147483648
   \<and> bytes_per_second_of wav_wrapped_rate = 0"
  by (simp add: field_eval)

lemma header_wrapped_rate: "decode_header wav_wrapped_rate = Value (1, 2147483648, 2, 36)"
  by (simp add: decode_header_def file_defs reader_defs)

lemma step_wrapped_rate:
  "scan_step wav_wrapped_rate 2 1 (36, False, [], 0) = Value (46, True, [1 / 2], 1)"
  by (simp add: scan_step_def file_defs reader_defs read_samples_unfold sample_defs)

lemma length_wrapped_rate: "length wav_wrapped_rate = 46"
  by (simp add: file_defs)

lemma decode_wrapped_rate:
  "DecodeLin16WaveAsFloatVector wav_wrapped_rate = Some (Value ([1 / 2], 1, 1, 2147483648))"
proof -
  have "scan_next wav_wrapped_rate 2 1 (36, False, [], 0) (46, True, [1 / 2], 1)"
    using step_wrapped_rate by (simp add: scan_next_def length_wrapped_rate size_t_of_def)
  then have "scan_chunks wav_wrapped_rate 2 1 (36, False, [], 0)
               = scan_chunks wav_wrapped_rate 2 1 (46, True, [1 / 2], 1)"
    by (rule scan_chunks_next)
  also have "\<dots> = Some (Value (46, True, [1 / 2], 1))"
    by (rule scan_chunks_done) (simp add: length_wrapped_rate size_t_of_def)
  finally show ?thesis
    using header_wrapped_rate by (simp add: DecodeLin16WaveAsFloatVector_def)
qed

text \<open>
  C6 as stated, with the product of bytes per frame and sample rate as a number, fails:
  a header declaring 2 bytes per frame, a sample rate of \<open>2^31\<close> and 0 bytes per second
  is accepted, since \<open>2 * 2^31\<close> is 0 in \<^verbatim>\<open>uint32_t\<close>.
\<close>

theorem decoder_accepts_wrapped_byte_rate:
  "bytes_per_second_of wav_wrapped_rate
     \<noteq> bytes_per_frame_of wav_wrapped_rate * sample_rate_of wav_wrapped_rate
   \<and> DecodeLin16WaveAsFloatVector wav_wrapped_rate = Some (Value ([1 / 2], 1, 1, 2147483648))"
  by (simp add: fields_wrapped_rate decode_wrapped_rate)

text \<open>
  C7. Reading from the state after the header, the loop iterations reach a state
  \<open>(offset, was_data_found, float_values, sample_count)\<close>. If a data chunk has been
  consumed by then and the next chunk read is again a data chunk, the decoder fails with
  "More than one data chunk found in WAV"; if the loop ends in that state and no data
  chunk has been seen, the decoder fails with "No data chunk found in WAV".
\<close>

theorem decoder_duplicate_or_missing_data_chunk:
  assumes header: "decode_header wav_data = Value (channel_count, sample_rate, bytes_per_sample, offset0)"
    and reach: "(scan_next wav_data bytes_per_sample channel_count)\<^sup>*\<^sup>* (offset0, False, [], 0)
                 (offset, was_data_found, float_values, sample_count)"
  shows "(was_data_found \<and> size_t_of offset < length wav_data
          \<and> ReadString wav_data 4 offset = Value (kDataChunkId, offset1)
          \<and> ReadValue 4 wav_data offset1 = Value (chunk_size, offset2)
          \<longrightarrow> DecodeLin16WaveAsFloatVector wav_data
                = Some (Fail (InvalidArgument ''More than one data chunk found in WAV'')))
       \<and> (\<not> was_data_found \<and> \<not> size_t_of offset < length wav_data
          \<longrightarrow> DecodeLin16WaveAsFloatVector wav_data
                = Some (Fail (InvalidArgument ''No data chunk found in WAV'')))"
proof -
  have scan: "scan_chunks wav_data bytes_per_sample channel_count (offset0, False, [], 0)
      = scan_chunks wav_data bytes_per_sample channel_count
          (offset, was_data_found, float_values, sample_count)"
    using reach by (rule scan_chunks_reach)
  show ?thesis
  proof (intro conjI impI)
    assume a: "was_data_found \<and> size_t_of offset < length wav_data
          \<and> ReadString wav_data 4 offset = Value (kDataChunkId, offset1)
          \<and> ReadValue 4 wav_data offset1 = Value (chunk_size, offset2)"
    then have "scan_step wav_data bytes_per_sample channel_count
                 (offset, was_data_found, float_values, sample_count)
               = Fail (InvalidArgument ''More than one data chunk found in WAV'')"
      using scan_step_second_data_chunk by simp
    with a have "scan_chunks wav_data bytes_per_sample channel_count
                 (offset, was_data_found, float_values, sample_count)
               = Some (Fail (InvalidArgument ''More than one data chunk found in WAV''))"
      by (intro scan_chunks_Fail) simp_all
    with scan header show "DecodeLin16WaveAsFloatVector wav_data
                = Some (Fail (InvalidArgument ''More than one data chunk found in WAV''))"
      by (simp add: DecodeLin16WaveAsFloatVector_def)
  next
    assume a: "\<not> was_data_found \<and> \<not> size_t_of offset < length wav_data"
    then have "scan_chunks wav_data bytes_per_sample channel_count
                 (offset, was_data_found, float_values, sample_count)
               = Some (Value (offset, was_data_found, float_values, sample_count))"
      by (intro scan_chunks_done) simp
    with scan header a show "DecodeLin16WaveAsFloatVector wav_data
                = Some (Fail (InvalidArgument ''No data chunk found in WAV''))"
      by (simp add: DecodeLin16WaveAsFloatVector_def)
  qed
qed

lemma reach_two_data_chunks:
  "(scan_next wav_two_data_chunks 2 1)\<^sup>*\<^sup>* (36, False, [], 0) (46, True, [1 / 2], 1)"
proof -
  have "scan_step wav_two_data_chunks 2 1 (36, False, [], 0) = Value (46, True, [1 / 2], 1)"
    unfolding wav_two_data_chunks_def by (rule step_data_mono)
  then have "scan_next wav_two_data_chunks 2 1 (36, False, [], 0) (46, True, [1 / 2], 1)"
    by (simp add: scan_next_def size_t_of_def file_defs)
  then show ?thesis by (rule r_into_rtranclp)
qed

lemma second_chunk_two_data_chunks:
  "size_t_of 46 < length wav_two_data_chunks
   \<and> ReadString wav_two_data_chunks 4 46 = Value (kDataChunkId, 50)
   \<and> ReadValue 4 wav_two_data_chunks 50 = Value (2, 54)"
  by (simp add: file_defs reader_defs)

lemma reach_no_data_chunk:
  "(scan_next wav_no_data_chunk 2 1)\<^sup>*\<^sup>* (36, False, [], 0) (46, False, [], 0)"
proof -
  have "scan_step wav_no_data_chunk 2 1 (36, False, [], 0) = Value (46, False, [], 0)"
    by (simp add: scan_step_def file_defs reader_defs)
  then have "scan_next wav_no_data_chunk 2 1 (36, False, [], 0) (46, False, [], 0)"
    by (simp add: scan_next_def size_t_of_def file_defs)
  then show ?thesis by (rule r_into_rtranclp)
qed

lemma end_no_data_chunk: "\<not> size_t_of 46 < length wav_no_data_chunk"
  by (simp add: file_defs size_t_of_def)

theorem decoder_duplicate_or_missing_data_chunk_witness:
  "DecodeLin16WaveAsFloatVector wav_two_data_chunks
     = Some (Fail (InvalidArgument ''More than one data chunk found in WAV''))
   \<and> DecodeLin16WaveAsFloatVector wav_no_data_chunk
     = Some (Fail (InvalidArgument ''No data chunk found in WAV''))"
  using decoder_duplicate_or_missing_data_chunk
      [OF header_mono_16k [of "chunk ''data'' 2 [0, 64] @ chunk ''data'' 2 [0, 64]",
            folded wav_two_data_chunks_def] reach_two_data_chunks, of 50 2 54]
    decoder_duplicate_or_missing_data_chunk
      [OF header_mono_16k [of "chunk ''LIST'' 2 [0, 0]", folded wav_no_data_chunk_def]
          reach_no_data_chunk]
    second_chunk_two_data_chunks end_no_data_chunk
  by simp




section \<open>Properties of the encoder\<close>

lemmas encoder_consts = kuint32max_def kuint16max_def kBytesPerSample_def kBitsPerSample_def
  kHeaderSize_def kFormatChunkSize_def kCompressionCodePcm_def kint16min_def kint16max_def

lemma file_size_of_exact:
  assumes "num_frames * num_channels < 2 ^ 62"
  shows "file_size_of num_frames num_channels = 44 + 2 * (num_frames * num_channels)"
proof -
  define n where "n = num_frames * num_channels"
  have n: "n < 4611686018427387904"
    using assms by (simp add: n_def)
  have 1: "n mod 18446744073709551616 = n"
    using n by simp
  have "n * 2 < 18446744073709551616"
    using n by linarith
  then have 2: "n * 2 mod 18446744073709551616 = n * 2"
    by (rule mod_less)
  have "44 + n * 2 < 18446744073709551616"
    using n by linarith
  then have 3: "(44 + n * 2) mod 18446744073709551616 = 44 + n * 2"
    by (rule mod_less)
  have "file_size_of num_frames num_channels
          = (44 + (n mod 18446744073709551616 * 2) mod 18446744073709551616)
              mod 18446744073709551616"
    by (simp add: file_size_of_def encoder_consts n_def)
  then show ?thesis
    by (simp only: 1 2 3) (simp add: n_def)
qed

text \<open>
  C8. The encoder returns \<open>InvalidArgument\<close>, before any write to the output, when the
  sample rate is 0 or above \<open>2^32 - 1\<close>, the channel count is 0 or above \<open>2^16 - 1\<close>, the
  frame count is 0, or the file size it computes exceeds \<open>2^32 - 1\<close>. The computed file
  size is the 44 header bytes plus 2 bytes per sample for every sample count below
  \<open>2^62\<close>, that is, for every sample buffer that fits a 64-bit address space.
\<close>

theorem encoder_rejects_bad_arguments:
  "(sample_rate = 0 \<or> sample_rate > 2 ^ 32 - 1
      \<or> num_channels = 0 \<or> num_channels > 2 ^ 16 - 1
      \<or> num_frames = 0
      \<or> file_size_of num_frames num_channels > 2 ^ 32 - 1
    \<longrightarrow> (\<exists>msg. EncodeAudioAsS16LEWav audio sample_rate num_channels num_frames wav_string
                 = Fail (InvalidArgument msg)))
   \<and> (num_frames * num_channels < 2 ^ 62
    \<longrightarrow> file_size_of num_frames num_channels = 44 + 2 * (num_frames * num_channels))"
proof (intro conjI impI)
  assume "sample_rate = 0 \<or> sample_rate > 2 ^ 32 - 1
      \<or> num_channels = 0 \<or> num_channels > 2 ^ 16 - 1
      \<or> num_frames = 0
      \<or> file_size_of num_frames num_channels > 2 ^ 32 - 1"
  then show "\<exists>msg. EncodeAudioAsS16LEWav audio sample_rate num_channels num_frames wav_string
                 = Fail (InvalidArgument msg)"
    by (auto simp add: EncodeAudioAsS16LEWav_def file_size_of_def Let_def kuint32max_def
          kuint16max_def)
next
  assume "num_frames * num_channels < 2 ^ 62"
  then show "file_size_of num_frames num_channels = 44 + 2 * (num_frames * num_channels)"
    by (rule file_size_of_exact)
qed

theorem encoder_rejects_bad_arguments_witness:
  "EncodeAudioAsS16LEWav (Some [0]) 0 1 1 (Some [])
     = Fail (InvalidArgument ''sample_rate must be in (0, 2^32), got: 0'')
   \<and> EncodeAudioAsS16LEWav (Some [0]) 16000 0 1 (Some [])
     = Fail (InvalidArgument ''num_channels must be in (0, 2^16), got: 0'')
   \<and> EncodeAudioAsS16LEWav (Some []) 16000 1 2147483648 (Some [])
     = Fail (InvalidArgument ''Provided channels and frames cannot be encoded as a WAV.'')
   \<and> file_size_of 2147483648 1 = 4294967340"
  using encoder_rejects_bad_arguments [of 0 1 1 "Some [0]" "Some []"]
    encoder_rejects_bad_arguments [of 16000 0 1 "Some [0]" "Some []"]
    encoder_rejects_bad_arguments [of 16000 1 2147483648 "Some []" "Some []"]
  by (simp add: EncodeAudioAsS16LEWav_def encoder_consts decimal.simps digit_def)

lemma encode_stereo:
  "EncodeAudioAsS16LEWav (Some [0, 0]) 16000 2 1 (Some []) = Value wav_encoded_stereo"
  apply (simp add: EncodeAudioAsS16LEWav_def encoder_consts bytes_of_def kRiffChunkId_def
        kRiffType_def kFormatChunkId_def kDataChunkId_def EncodeFixed32_def EncodeFixed16_def
        FloatToInt16Sample_def roundf_def)
  apply (simp add: wav_encoded_stereo_def)
  done

lemma decode_encoded_stereo:
  "DecodeLin16WaveAsFloatVector wav_encoded_stereo = Some (Fail (InvalidArgument
     ''Bad bytes per second in WAV header: Expected 64000 but got 32000 (sample_rate=16000, bytes_per_sample=4)''))"
  by (simp add: DecodeLin16WaveAsFloatVector_def decode_header_def wav_encoded_stereo_def
        reader_defs decimal.simps digit_def)

text \<open>
  C2. The claim: decoding the encoder's output succeeds and gives back the sample rate,
  the channel count and the samples up to quantisation. For one stereo frame the
  encoder writes \<open>bytes_per_second = sample_rate * 2 = 32000\<close>, without the channel
  count, next to \<open>bytes_per_frame = 4\<close>; the decoder requires
  \<open>bytes_per_second = bytes_per_frame * sample_rate = 64000\<close> and rejects the file.
\<close>

theorem decode_rejects_encoded_stereo:
  "EncodeAudioAsS16LEWav (Some [0, 0]) 16000 2 1 (Some []) = Value wav_encoded_stereo
   \<and> DecodeLin16WaveAsFloatVector wav_encoded_stereo = Some (Fail (InvalidArgument
     ''Bad bytes per second in WAV header: Expected 64000 but got 32000 (sample_rate=16000, bytes_per_sample=4)''))"
  using encode_stereo decode_encoded_stereo by simp

text \<open>
  For mono audio the encoder and the decoder agree: a non-empty mono buffer at a sample
  rate in \<open>(0, 2^32)\<close> whose file stays below \<open>2^31\<close> bytes (the decoder's offset is an
  \<^verbatim>\<open>int\<close>) decodes to the same rate, channel count 1 and the quantised samples, each
  within \<open>1/32768\<close> of an input sample in \<open>[-1, 1]\<close>.
\<close>

lemma unat_byte: "unat (of_nat n :: byte) = n mod 256"
  by (simp add: unat_of_nat)

lemma split32:
  fixes u :: nat
  assumes "u < 4294967296"
  shows "u mod 256 + 256 * (u div 256 mod 256 + 256 * (u div 65536 mod 256
               + 256 * (u div 16777216 mod 256))) = u"
proof -
  have a: "u div 16777216 mod 256 = u div 16777216" using assms by simp
  have b: "u div 65536 = u div 256 div 256" by (simp add: div_mult2_eq [symmetric])
  have c: "u div 16777216 = u div 256 div 256 div 256" by (simp add: div_mult2_eq [symmetric])
  show ?thesis unfolding a unfolding b c
    by (simp add: mult.commute [of 256])
qed

lemma split16:
  fixes u :: nat
  assumes "u < 65536"
  shows "u mod 256 + 256 * (u div 256 mod 256) = u"
proof -
  have a: "u div 256 mod 256 = u div 256" using assms by simp
  show ?thesis unfolding a by simp
qed

lemma le_nat_EncodeFixed32:
  "le_nat (EncodeFixed32 v) = nat (v mod 2 ^ 32)"
proof -
  define u where "u = nat (v mod 2 ^ 32)"
  have u: "u < 4294967296" by (simp add: u_def)
  have "le_nat (EncodeFixed32 v) = u mod 256 + 256 * (u div 256 mod 256 + 256 * (u div 65536 mod 256
               + 256 * (u div 16777216 mod 256)))"
    unfolding EncodeFixed32_def u_def [symmetric] Let_def
    by (simp only: le_nat.simps unat_byte mod_mod_trivial) simp
  also have "\<dots> = u" by (rule split32 [OF u])
  finally show ?thesis by (simp only: u_def)
qed

lemma le_nat_EncodeFixed16:
  "le_nat (EncodeFixed16 v) = nat (v mod 2 ^ 16)"
proof -
  define u where "u = nat (v mod 2 ^ 16)"
  have u: "u < 65536" by (simp add: u_def)
  have "le_nat (EncodeFixed16 v) = u mod 256 + 256 * (u div 256 mod 256)"
    unfolding EncodeFixed16_def u_def [symmetric] Let_def
    by (simp only: le_nat.simps unat_byte mod_mod_trivial) simp
  also have "\<dots> = u" by (rule split16 [OF u])
  finally show ?thesis by (simp only: u_def)
qed

lemma int16_of_EncodeFixed16:
  assumes "- 32768 \<le> s" "s \<le> 32767"
  shows "int16_of (le_nat (EncodeFixed16 s)) = s"
proof (cases "0 \<le> s")
  case True
  then have "s mod 2 ^ 16 = s" using assms by simp
  then show ?thesis using True assms by (simp add: le_nat_EncodeFixed16 int16_of_def)
next
  case False
  have "(s + 65536) mod 65536 = s + 65536"
    using assms False by (intro mod_pos_pos_trivial) auto
  moreover have "(s + 65536) mod 65536 = s mod 65536"
    by simp
  ultimately have "s mod 65536 = s + 65536"
    by (simp only:)
  then show ?thesis using False assms by (simp add: le_nat_EncodeFixed16 int16_of_def)
qed

lemma length_EncodeFixed16: "length (EncodeFixed16 v) = 2"
  by (simp add: EncodeFixed16_def Let_def)

lemma length_EncodeFixed32: "length (EncodeFixed32 v) = 4"
  by (simp add: EncodeFixed32_def Let_def)

lemma FloatToInt16Sample_range:
  "- 32768 \<le> FloatToInt16Sample x \<and> FloatToInt16Sample x \<le> 32767"
  by (simp add: FloatToInt16Sample_def kint16min_def kint16max_def)

lemma ReadValue_sample:
  assumes "length pre + 2 + length rest < 2 ^ 31"
  shows "ReadValue 2 (pre @ EncodeFixed16 (FloatToInt16Sample x) @ rest) (int (length pre))
           = Value (le_nat (EncodeFixed16 (FloatToInt16Sample x)), int (length pre) + 2)"
proof -
  have 1: "int32_of (int (length pre) + 2) = int (length pre) + 2"
    using assms by (simp add: int32_of_def)
  have "int (length pre) + 2 < 18446744073709551616"
    using assms by simp
  then have "(int (length pre) + 2) mod 18446744073709551616 = int (length pre) + 2"
    by (intro mod_pos_pos_trivial) simp_all
  then have 2: "size_t_of (int (length pre) + 2) = length pre + 2"
    by (simp add: size_t_of_def)
  show ?thesis
    using assms by (simp add: ReadValue_def 1 2 slice_def length_EncodeFixed16)
qed

lemma read_samples_encoded:
  assumes "length pre + 2 * length xs < 2 ^ 31"
  shows "read_samples (pre @ concat (map (\<lambda>sample. EncodeFixed16 (FloatToInt16Sample sample)) xs))
           (length xs) (int (length pre))
         = Value (map quantize xs, int (length pre) + 2 * int (length xs))"
  using assms
proof (induction xs arbitrary: pre)
  case Nil
  then show ?case by simp
next
  case (Cons x xs)
  let ?e = "EncodeFixed16 (FloatToInt16Sample x)"
  let ?rest = "concat (map (\<lambda>sample. EncodeFixed16 (FloatToInt16Sample sample)) xs)"
  have len: "length ?rest = 2 * length xs"
    by (induction xs) (simp_all add: length_EncodeFixed16)
  have rv: "ReadValue 2 (pre @ ?e @ ?rest) (int (length pre))
              = Value (le_nat ?e, int (length pre) + 2)"
    using Cons.prems by (intro ReadValue_sample) (simp add: len)
  have ih: "read_samples ((pre @ ?e) @ ?rest) (length xs) (int (length (pre @ ?e)))
              = Value (map quantize xs, int (length (pre @ ?e)) + 2 * int (length xs))"
    using Cons.prems by (intro Cons.IH) (simp add: length_EncodeFixed16)
  have q: "Int16SampleToFloat (int16_of (le_nat ?e)) = quantize x"
    using FloatToInt16Sample_range [of x] by (simp add: int16_of_EncodeFixed16 quantize_def)
  have ih': "read_samples (pre @ ?e @ ?rest) (length xs) (int (length pre) + 2)
              = Value (map quantize xs, int (length pre) + 2 + 2 * int (length xs))"
    using ih
    by (simp only: append_assoc length_append length_EncodeFixed16 of_nat_add of_nat_numeral)
  have "read_samples (pre @ ?e @ ?rest) (Suc (length xs)) (int (length pre))
          = Value (quantize x # map quantize xs, int (length pre) + 2 + 2 * int (length xs))"
    by (simp only: read_samples.simps rv TF_RETURN_IF_ERROR_def outcome.case prod.case ih' q)
  then show ?case
    by simp
qed


lemma length_mono_header: "length (mono_header sample_rate num_samples) = 44"
  by (simp add: mono_header_def bytes_of_def length_EncodeFixed16 length_EncodeFixed32)

lemma decode_header_mono_header:
  assumes "sample_rate < 2 ^ 32"
  shows "decode_header (mono_header sample_rate num_samples @ rest) = Value (1, sample_rate, 2, 36)"
proof -
  have 1: "nat (int sample_rate mod 4294967296) = sample_rate"
    using assms by (simp add: nat_mod_distrib)
  have "int ((2 * sample_rate) mod 4294967296) = int (2 * sample_rate) mod 4294967296"
    by (simp only: zmod_int of_nat_numeral)
  then have 2: "nat (int (2 * sample_rate) mod 4294967296) = (2 * sample_rate) mod 4294967296"
    by (metis nat_int)
  show ?thesis
    by (simp add: decode_header_def mono_header_def reader_defs bytes_of_def
          length_EncodeFixed16 length_EncodeFixed32 le_nat_EncodeFixed16 le_nat_EncodeFixed32
          1 2 del: of_nat_mult of_nat_add)
qed


lemma scan_chunks_step_Value:
  "size_t_of (fst st) < length wav_data \<Longrightarrow> scan_step wav_data bps ch st = Value st'
     \<Longrightarrow> scan_chunks wav_data bps ch st = scan_chunks wav_data bps ch st'"
  by (subst scan_chunks.simps) simp

lemma length_encoded_samples: "length (encoded_samples audio) = 2 * length audio"
  by (induction audio) (simp_all add: length_EncodeFixed16)

lemma data_chunk_mono_header:
  assumes "2 * num_samples < 2 ^ 32"
  shows "ReadString (mono_header sample_rate num_samples @ rest) 4 36 = Value (kDataChunkId, 40)
       \<and> ReadValue 4 (mono_header sample_rate num_samples @ rest) 40 = Value (2 * num_samples, 44)"
proof -
  have "int ((2 * num_samples) mod 4294967296) = int (2 * num_samples) mod 4294967296"
    by (simp only: zmod_int of_nat_numeral)
  then have "nat (int (2 * num_samples) mod 4294967296) = (2 * num_samples) mod 4294967296"
    by (metis nat_int)
  then have 1: "nat (int (2 * num_samples) mod 4294967296) = 2 * num_samples"
    using assms by simp
  show ?thesis
    by (simp add: mono_header_def reader_defs bytes_of_def
          length_EncodeFixed16 length_EncodeFixed32 le_nat_EncodeFixed32
          1 del: of_nat_mult of_nat_add)
qed

lemma scan_step_encoded_mono:
  assumes "44 + 2 * length audio < 2 ^ 31"
  shows "scan_step (mono_header sample_rate (length audio) @ encoded_samples audio) 2 1
           (36, False, [], 0)
         = Value (44 + 2 * int (length audio), True, map quantize audio, length audio)"
proof -
  let ?h = "mono_header sample_rate (length audio)"
  have small: "2 * length audio < 2 ^ 32"
    using assms by simp
  have rd: "read_samples (?h @ encoded_samples audio) (length audio) 44
              = Value (map quantize audio, 44 + 2 * int (length audio))"
    using read_samples_encoded [of ?h audio] assms by (simp add: length_mono_header)
  have cnt: "length audio mod 4294967296 = length audio"
    using assms by simp
  show ?thesis
    using data_chunk_mono_header [OF small, of sample_rate "encoded_samples audio"] rd
    by (simp add: scan_step_def TF_RETURN_IF_ERROR_def cnt Let_def)
qed

lemma decode_encoded_mono:
  assumes "sample_rate < 2 ^ 32" and "44 + 2 * length audio < 2 ^ 31"
  shows "DecodeLin16WaveAsFloatVector (mono_header sample_rate (length audio) @ encoded_samples audio)
           = Some (Value (map quantize audio, length audio, 1, sample_rate))"
proof -
  let ?d = "mono_header sample_rate (length audio) @ encoded_samples audio"
  have len: "length ?d = 44 + 2 * length audio"
    by (simp add: length_mono_header length_encoded_samples)
  have lt: "size_t_of (fst (36::int, False, []::real list, 0::nat)) < length ?d"
    by (simp add: size_t_of_def length_mono_header length_encoded_samples)
  have "(44 + 2 * int (length audio)) mod 18446744073709551616 = 44 + 2 * int (length audio)"
    using assms by (intro mod_pos_pos_trivial) simp_all
  then have stop: "\<not> size_t_of (fst (44 + 2 * int (length audio), True, map quantize audio,
                      length audio)) < length ?d"
    by (simp add: size_t_of_def length_mono_header length_encoded_samples)
  have "scan_chunks ?d 2 1 (36, False, [], 0)
          = scan_chunks ?d 2 1 (44 + 2 * int (length audio), True, map quantize audio, length audio)"
    using lt scan_step_encoded_mono [OF assms(2)] by (rule scan_chunks_step_Value)
  also have "\<dots> = Some (Value (44 + 2 * int (length audio), True, map quantize audio,
                       length audio))"
    using stop by (rule scan_chunks_done)
  finally show ?thesis
    using decode_header_mono_header [OF assms(1), of "length audio" "encoded_samples audio"]
    by (simp add: DecodeLin16WaveAsFloatVector_def)
qed

lemma encode_mono:
  assumes "audio \<noteq> []" and "0 < sample_rate" and "sample_rate < 2 ^ 32"
    and "44 + 2 * length audio < 2 ^ 31"
  shows "EncodeAudioAsS16LEWav (Some audio) sample_rate 1 (length audio) (Some [])
           = Value (mono_header sample_rate (length audio) @ encoded_samples audio)"
proof -
  have 1: "length audio mod 18446744073709551616 = length audio"
    using assms by simp
  have 2: "(length audio * 2) mod 18446744073709551616 = length audio * 2"
    using assms by simp
  have 3: "(44 + length audio * 2) mod 18446744073709551616 = 44 + length audio * 2"
    using assms by simp
  have 4: "(sample_rate * 2) mod 18446744073709551616 = sample_rate * 2"
    using assms by simp
  have 5: "int (44 + 2 * length audio) - 8 = int (36 + 2 * length audio)"
    by simp
  have 6: "sample_rate * 2 = 2 * sample_rate" "length audio * 2 = 2 * length audio"
    by simp_all
  show ?thesis
    using assms
    by (simp add: EncodeAudioAsS16LEWav_def kuint32max_def kuint16max_def kBytesPerSample_def
          kBitsPerSample_def kHeaderSize_def kFormatChunkSize_def kCompressionCodePcm_def
          kRiffChunkId_def kRiffType_def kFormatChunkId_def kDataChunkId_def mono_header_def
          1 2 3 4 5 6 Let_def del: of_nat_mult of_nat_add)
qed

lemma roundf_close: "\<bar>real_of_int (roundf y) - y\<bar> \<le> 1 / 2"
proof (cases "0 \<le> y")
  case True
  have "real_of_int \<lfloor>y + 1 / 2\<rfloor> \<le> y + 1 / 2"
    by (rule of_int_floor_le)
  moreover have "y + 1 / 2 < real_of_int \<lfloor>y + 1 / 2\<rfloor> + 1"
    by (rule real_of_int_floor_add_one_gt)
  ultimately have "\<bar>real_of_int \<lfloor>y + 1 / 2\<rfloor> - y\<bar> \<le> 1 / 2"
    by linarith
  then show ?thesis
    using True by (simp only: roundf_def if_True)
next
  case False
  have "y - 1 / 2 \<le> real_of_int \<lceil>y - 1 / 2\<rceil>"
    by (rule le_of_int_ceiling)
  moreover have "real_of_int \<lceil>y - 1 / 2\<rceil> - 1 < y - 1 / 2"
    using ceiling_correct [of "y - 1 / 2"] by simp
  ultimately have "\<bar>real_of_int \<lceil>y - 1 / 2\<rceil> - y\<bar> \<le> 1 / 2"
    by linarith
  then show ?thesis
    using False by (simp only: roundf_def if_False)
qed

lemma quantize_error:
  assumes "- 1 \<le> x" and "x \<le> 1"
  shows "\<bar>quantize x - x\<bar> \<le> 1 / 32768"
proof -
  define y where "y = x * 32768"
  define r where "r = roundf y"
  have y: "- 32768 \<le> y" "y \<le> 32768"
    using assms by (simp_all add: y_def)
  have close: "\<bar>real_of_int r - y\<bar> \<le> 1 / 2"
    unfolding r_def by (rule roundf_close)
  have lo: "- 32768 \<le> r"
    using close y by linarith
  have hi: "r \<le> 32768"
    using close y by linarith
  have "\<bar>real_of_int (min (max r (- 32768)) 32767) - y\<bar> \<le> 1"
  proof (cases "r \<le> 32767")
    case True
    then have "min (max r (- 32768)) 32767 = r" using lo by simp
    then show ?thesis using close by simp
  next
    case False
    then have "r = 32768" using hi by simp
    then have "min (max r (- 32768)) 32767 = 32767" by simp
    moreover have "real_of_int r - y \<le> 1 / 2" using close by linarith
    then have "32767 + 1 / 2 \<le> y" unfolding \<open>r = 32768\<close> by simp
    ultimately show ?thesis using y by simp
  qed
  then have "\<bar>real_of_int (FloatToInt16Sample x) - x * 32768\<bar> \<le> 1"
    by (simp add: FloatToInt16Sample_def kint16min_def kint16max_def r_def y_def)
  then have "\<bar>real_of_int (FloatToInt16Sample x) / 32768 - x\<bar> \<le> 1 / 32768"
    by (simp add: field_simps abs_le_iff)
  then show ?thesis
    by (simp add: quantize_def Int16SampleToFloat_def)
qed

lemma mono_round_trip:
  assumes "audio \<noteq> []" and "0 < sample_rate" and "sample_rate < 2 ^ 32"
    and "44 + 2 * length audio < 2 ^ 31"
  shows "\<exists>wav. EncodeAudioAsS16LEWav (Some audio) sample_rate 1 (length audio) (Some []) = Value wav
           \<and> DecodeLin16WaveAsFloatVector wav
               = Some (Value (map quantize audio, length audio, 1, sample_rate))
           \<and> (\<forall>x \<in> set audio. - 1 \<le> x \<and> x \<le> 1 \<longrightarrow> \<bar>quantize x - x\<bar> \<le> 1 / 32768)"
  using encode_mono [OF assms] decode_encoded_mono [OF assms(3,4)] quantize_error
  by blast

section \<open>Properties of the trim pipeline\<close>

lemma decode_mono_one_sample:
  assumes header: "decode_header wav_data = Value (1, sample_rate, 2, 36)"
    and step: "scan_step wav_data 2 1 (36, False, [], 0) = Value (int (length wav_data), True, values, n)"
    and len: "36 < length wav_data" "length wav_data < 2 ^ 31"
  shows "DecodeLin16WaveAsFloatVector wav_data = Some (Value (values, n, 1, sample_rate))"
proof -
  have lt: "size_t_of 36 < length wav_data"
    using len by (simp add: size_t_of_def)
  have "size_t_of (int (length wav_data)) = length wav_data"
    using len by (simp add: size_t_of_def)
  then have stop: "\<not> size_t_of (fst (int (length wav_data), True, values, n)) < length wav_data"
    by simp
  have "scan_chunks wav_data 2 1 (36, False, [], 0)
          = scan_chunks wav_data 2 1 (int (length wav_data), True, values, n)"
    using lt step by (intro scan_chunks_next) (simp add: scan_next_def)
  also have "\<dots> = Some (Value (int (length wav_data), True, values, n))"
    using stop by (rule scan_chunks_done)
  finally show ?thesis
    using header by (simp add: DecodeLin16WaveAsFloatVector_def)
qed

lemma decode_wav_mono: "DecodeLin16WaveAsFloatVector wav_mono = Some (Value ([1 / 2], 1, 1, 16000))"
proof (rule decode_mono_one_sample)
  show "decode_header wav_mono = Value (1, 16000, 2, 36)"
    unfolding wav_mono_def by (rule header_mono_16k)
  show "scan_step wav_mono 2 1 (36, False, [], 0) = Value (int (length wav_mono), True, [1 / 2], 1)"
    by (simp add: scan_step_def file_defs reader_defs read_samples_unfold sample_defs)
qed (simp_all add: file_defs)

lemma decode_wav_rate_zero:
  "DecodeLin16WaveAsFloatVector wav_rate_zero = Some (Value ([1 / 2], 1, 1, 0))"
proof (rule decode_mono_one_sample)
  show "decode_header wav_rate_zero = Value (1, 0, 2, 36)"
    by (simp add: decode_header_def file_defs reader_defs)
  show "scan_step wav_rate_zero 2 1 (36, False, [], 0)
          = Value (int (length wav_rate_zero), True, [1 / 2], 1)"
    by (simp add: scan_step_def file_defs reader_defs read_samples_unfold sample_defs)
qed (simp_all add: file_defs)

lemma decode_wav_empty_data:
  "DecodeLin16WaveAsFloatVector wav_empty_data = Some (Value ([], 0, 1, 16000))"
proof (rule decode_mono_one_sample)
  show "decode_header wav_empty_data = Value (1, 16000, 2, 36)"
    unfolding wav_empty_data_def by (rule header_mono_16k)
  show "scan_step wav_empty_data 2 1 (36, False, [], 0)
          = Value (int (length wav_empty_data), True, [], 0)"
    by (simp add: scan_step_def file_defs reader_defs)
qed (simp_all add: file_defs)

lemma decode_wav_quiet:
  "DecodeLin16WaveAsFloatVector wav_quiet = Some (Value ([1 / 32768, 0], 2, 1, 2))"
proof (rule decode_mono_one_sample)
  show "decode_header wav_quiet = Value (1, 2, 2, 36)"
    by (simp add: decode_header_def file_defs reader_defs)
  show "scan_step wav_quiet 2 1 (36, False, [], 0)
          = Value (int (length wav_quiet), True, [1 / 32768, 0], 2)"
    by (simp add: scan_step_def file_defs reader_defs read_samples_unfold sample_defs)
qed (simp_all add: file_defs)

lemma decode_wav_stereo:
  "DecodeLin16WaveAsFloatVector wav_stereo
     = Some (Value ([1 / 2, - (1 / 2), 1 / 4, - (1 / 4)], 2, 2, 16000))"
proof -
  have header: "decode_header wav_stereo = Value (2, 16000, 4, 36)"
    by (simp add: decode_header_def file_defs reader_defs)
  have len: "length wav_stereo = 52"
    by (simp add: file_defs)
  have "scan_step wav_stereo 4 2 (36, False, [], 0)
          = Value (52, True, [1 / 2, - (1 / 2), 1 / 4, - (1 / 4)], 2)"
    by (simp add: scan_step_def file_defs reader_defs read_samples_unfold sample_defs)
  then have "scan_chunks wav_stereo 4 2 (36, False, [], 0)
          = scan_chunks wav_stereo 4 2 (52, True, [1 / 2, - (1 / 2), 1 / 4, - (1 / 4)], 2)"
    by (intro scan_chunks_next) (simp add: scan_next_def len size_t_of_def)
  also have "\<dots> = Some (Value (52, True, [1 / 2, - (1 / 2), 1 / 4, - (1 / 4)], 2))"
    by (rule scan_chunks_done) (simp add: len size_t_of_def)
  finally show ?thesis
    using header by (simp add: DecodeLin16WaveAsFloatVector_def)
qed

lemmas trim_defs = downmix_def mono_sample_def desired_samples_of_def TrimToLoudestSegment_def
  accumulate_def slide_def volume_def fp_div_def vector_data_def

lemma fold_add_sum:
  "fold (\<lambda>c total. total + f c) [0..<n] (a::real) = a + (\<Sum>c<n. f c)"
  by (induction n) simp_all

lemma mono_sample_mean:
  "mono_sample wav_samples channel_count i
     = (\<Sum>c<channel_count. wav_samples ! (i * channel_count + c)) / real channel_count"
  by (simp add: mono_sample_def fold_add_sum)

lemma downmix_length:
  assumes "downmix wav_samples sample_count channel_count = Value mono_samples"
    and "channel_count \<noteq> 1"
  shows "length mono_samples = sample_count div channel_count"
  using assms by (auto simp add: downmix_def Let_def split: if_splits)

text \<open>
  C3. The claim: with more than one channel, the down-mix produces one sample per input
  frame, the mean of the frame's channel values, so that the two stereo frames
  \<open>[1, -1, 1/2, -1/2]\<close> give \<open>[0, 0]\<close>. Each sample produced is the mean of a frame
  (\<open>mono_sample_mean\<close>), but the number of samples is \<open>sample_count\<close> divided by the
  channel count (\<open>downmix_length\<close>), and the decoder sets \<open>sample_count\<close> to the number
  of frames already (2 for the 8-byte stereo data chunk of \<open>wav_stereo\<close>): the down-mix
  produces one sample, for the first frame only.
\<close>

theorem downmix_drops_frames:
  "DecodeLin16WaveAsFloatVector wav_stereo
     = Some (Value ([1 / 2, - (1 / 2), 1 / 4, - (1 / 4)], 2, 2, 16000))
   \<and> downmix [1 / 2, - (1 / 2), 1 / 4, - (1 / 4)] 2 2 = Value [0]
   \<and> downmix [1, - 1, 1 / 2, - (1 / 2)] 2 2 = Value [0]"
  using decode_wav_stereo by (simp add: downmix_def mono_sample_def upt_rec)

lemma TrimToLoudestSegment_length:
  assumes "TrimToLoudestSegment input desired_samples = Value trimmed_samples"
  shows "int (length trimmed_samples) \<le> desired_samples"
proof (cases "int (length input) \<le> desired_samples")
  case True
  then show ?thesis using assms by (simp add: TrimToLoudestSegment_def)
next
  case False
  then have nonneg: "0 \<le> desired_samples"
    using assms by (simp add: TrimToLoudestSegment_def split: if_splits)
  have "length trimmed_samples \<le> nat desired_samples"
    using assms False nonneg
    by (auto simp add: TrimToLoudestSegment_def Let_def case_prod_beta)
  then show ?thesis using nonneg by linarith
qed

lemma volume_nonneg: "0 \<le> volume xs"
  by (induction xs) (simp_all add: volume_def)

lemma TrimFile_decode_failure:
  "DecodeLin16WaveAsFloatVector input_file = Some (Fail load_wav_status)
   \<Longrightarrow> TrimFile input_file desired_length_ms min_volume
         = Some (Inr \<lparr>returned = load_wav_status, save_wav_status = None, output_file = None\<rparr>)"
  by (simp add: TrimFile_def)

lemma TrimFile_returns_OK_after_decode:
  assumes "DecodeLin16WaveAsFloatVector input_file = Some (Value w)"
    and "TrimFile input_file desired_length_ms min_volume = Some (Inr r)"
  shows "returned r = StatusOK"
  using assms
  by (auto simp add: TrimFile_def Let_def split: outcome.splits prod.splits if_splits)

text \<open>
  C5. The claim: a failure of the decoder or of the encoder makes \<^verbatim>\<open>TrimFile\<close> return a
  failure status. A decoder failure is returned as it is (\<open>TrimFile_decode_failure\<close>
  above), but \<^verbatim>\<open>save_wav_status\<close> is never tested. For the mono file \<open>wav_rate_zero\<close>,
  whose header declares a sample rate of 0, with the parameters of \<^verbatim>\<open>main\<close> (1000 ms,
  0.004): \<open>desired_samples\<close> is 0, the slice is empty, the encoder fails, an empty file is
  written and \<^verbatim>\<open>TrimFile\<close> returns \<^verbatim>\<open>Status::OK()\<close>. The same happens for the file
  \<open>wav_empty_data\<close>, whose data chunk is empty, with a threshold of 0. (The encoder's
  message is that of its first test, since \<^verbatim>\<open>data()\<close> of the empty vector is null; with
  a non-null pointer a later test of the encoder fails instead.)
\<close>

theorem TrimFile_ignores_encoder_failure:
  "TrimFile wav_rate_zero 1000 (4 / 1000)
     = Some (Inr \<lparr>returned = StatusOK,
                 save_wav_status = Some (InvalidArgument ''audio is null''),
                 output_file = Some []\<rparr>)
   \<and> TrimFile wav_empty_data 1000 0
     = Some (Inr \<lparr>returned = StatusOK,
                 save_wav_status = Some (InvalidArgument ''audio is null''),
                 output_file = Some []\<rparr>)"
  using decode_wav_rate_zero decode_wav_empty_data
  by (simp add: TrimFile_def trim_defs EncodeAudioAsS16LEWav_def upt_rec)

lemma TrimToLoudestSegment_zero: "TrimToLoudestSegment input 0 = Value []"
  by (cases input) (simp_all add: TrimToLoudestSegment_def Let_def case_prod_beta)

text \<open>
  C9 as stated fails: for the valid mono file \<open>wav_mono\<close> and a desired length of 0 ms,
  \<open>desired_samples\<close> is 0, the division \<open>0 / 0\<close> is performed and gives a NaN, and
  \<^verbatim>\<open>TrimFile\<close> returns \<^verbatim>\<open>Status::OK()\<close>, not a failure.
\<close>

theorem TrimFile_zero_length_returns_OK:
  "desired_samples_of 0 16000 = Value 0
   \<and> fp_div (volume []) 0 = NaN
   \<and> TrimFile wav_mono 0 (4 / 1000)
       = Some (Inr \<lparr>returned = StatusOK,
                   save_wav_status = Some (InvalidArgument ''audio is null''),
                   output_file = Some []\<rparr>)"
  using decode_wav_mono
  by (simp add: TrimFile_def trim_defs EncodeAudioAsS16LEWav_def upt_rec)

text \<open>
  C9, as amended. When \<open>desired_samples\<close> is 0 there is no test for it: the extracted
  slice is empty, the division of its volume by \<open>desired_samples\<close> is performed and gives a
  NaN, the comparison with \<open>min_volume\<close> is false for every threshold, so the input is
  never skipped, and the encoder is called on the empty slice, which it rejects with
  \<open>InvalidArgument\<close>.
\<close>

theorem TrimFile_zero_desired_samples:
  assumes "DecodeLin16WaveAsFloatVector input_file
             = Some (Value (wav_samples, sample_count, channel_count, sample_rate))"
    and "downmix wav_samples sample_count channel_count = Value mono_samples"
    and "desired_samples_of desired_length_ms sample_rate = Value 0"
  shows "TrimToLoudestSegment mono_samples 0 = Value []
    \<and> fp_div (volume []) 0 = NaN
    \<and> \<not> fp_less (fp_div (volume []) 0) min_volume
    \<and> (\<exists>r msg. TrimFile input_file desired_length_ms min_volume = Some (Inr r)
          \<and> save_wav_status r = Some (InvalidArgument msg))"
  using assms
  by (auto simp add: TrimFile_def TrimToLoudestSegment_zero fp_div_def volume_def vector_data_def
        EncodeAudioAsS16LEWav_def)

theorem TrimFile_zero_desired_samples_witness:
  "\<exists>r msg. TrimFile wav_mono 0 (4 / 1000) = Some (Inr r)
       \<and> save_wav_status r = Some (InvalidArgument msg)"
proof -
  have 1: "downmix [1 / 2] 1 1 = Value [1 / 2]"
    by (simp add: downmix_def)
  have 2: "desired_samples_of 0 16000 = Value 0"
    by (simp add: desired_samples_of_def)
  show ?thesis
    using TrimFile_zero_desired_samples [OF decode_wav_mono 1 2, of "4 / 1000"] by simp
qed

section \<open>Properties of the binary32 computations\<close>

lemma spacing_down_unfold:
  "0 < n \<Longrightarrow> spacing_down n x q = (if x / q < 8388608 then spacing_down (n - 1) x (q / 2) else q)"
  by (cases n) simp_all

lemma spacing_up_more:
  "0 < q \<Longrightarrow> 16777216 \<le> x / q \<Longrightarrow> spacing_up x q = spacing_up x (2 * q)"
  by (subst spacing_up.simps) simp

lemma spacing_up_stop:
  "\<not> (0 < q \<and> 16777216 \<le> x / q) \<Longrightarrow> spacing_up x q = q"
  by (subst spacing_up.simps) auto

lemma round32_zero: "round32 0 = Finite 0"
  by (simp add: round32_def)

lemma round32_pos:
  assumes "0 < x" and "spacing x = q" and "round_even (x / q) = n"
    and "real_of_int n * q \<le> FLT_MAX"
  shows "round32 x = Finite (real_of_int n * q)"
  using assms by (simp add: round32_def Let_def)

lemmas round32_eval = spacing_def spacing_down_unfold spacing_up_more spacing_up_stop
  round_even_def FLT_MAX_def Let_def

text \<open>Values that binary32 holds are left as they are; \<open>1/3\<close>, \<open>0.004\<close> and \<open>2^-15 / 3\<close>
  are rounded to 24 significant bits, and halfway cases go to the even neighbour.\<close>

lemma round32_exact:
  "round32 (1) = Finite (1)"
  "round32 (2) = Finite (2)"
  "round32 (3) = Finite (3)"
  "round32 (10) = Finite (10)"
  "round32 (20) = Finite (20)"
  "round32 (30) = Finite (30)"
  "round32 (16777218) = Finite (16777218)"
  "round32 (1 / 32768) = Finite (1 / 32768)"
  "round32 (1 / 65536) = Finite (1 / 65536)"
  using
    round32_pos [of "1" "1 / 8388608" 8388608]
    round32_pos [of "2" "1 / 4194304" 8388608]
    round32_pos [of "3" "1 / 4194304" 12582912]
    round32_pos [of "10" "1 / 1048576" 10485760]
    round32_pos [of "20" "1 / 524288" 10485760]
    round32_pos [of "30" "1 / 524288" 15728640]
    round32_pos [of "16777218" "2" 8388609]
    round32_pos [of "1 / 32768" "1 / 274877906944" 8388608]
    round32_pos [of "1 / 65536" "1 / 549755813888" 8388608]
  by (simp_all add: round32_eval)

lemma round32_inexact:
  "round32 (1 / 3) = Finite (11184811 / 33554432)"
  "round32 (1 / 250) = Finite (8589935 / 2147483648)"
  "round32 (1 / 98304) = Finite (11184811 / 1099511627776)"
  "round32 (16777217) = Finite (16777216)"
  "round32 (16777219) = Finite (16777220)"
  "round32 (33554435 / 2) = Finite (16777218)"
  using
    round32_pos [of "1 / 3" "1 / 33554432" 11184811]
    round32_pos [of "1 / 250" "1 / 2147483648" 8589935]
    round32_pos [of "1 / 98304" "1 / 1099511627776" 11184811]
    round32_pos [of "16777217" "2" 8388608]
    round32_pos [of "16777219" "2" 8388610]
    round32_pos [of "33554435 / 2" "2" 8388609]
  by (simp_all add: round32_eval)

lemmas f32_eval = TrimToLoudestSegment_f32_def accumulate_f32_def slide_f32_def volume_f32_def
  average_volume_f32_def fp_sub_def round32_zero round32_exact round32_inexact upt_rec Let_def

text \<open>On the input of \<open>TrimToLoudestSegment_off_by_one\<close> no sum is rounded, and the
  binary32 computation returns the same window. On \<open>[0, 1, 1, 2^24, 1.5]\<close> the sums are
  rounded, and it returns the window at offset 0 where the computation over the reals
  returns the one at offset 1.\<close>

lemma TrimToLoudestSegment_f32_off_by_one:
  "TrimToLoudestSegment_f32 (map Finite [0, 0, 0, 10, 10, 10, 0, 0, 0]) 3
     = Value (map Finite [0, 10, 10])"
  by (simp add: f32_eval)

lemma TrimToLoudestSegment_f32_rounding:
  "TrimToLoudestSegment_f32 (map Finite [0, 1, 1, 16777216, 3 / 2]) 3
     = Value (map Finite [0, 1, 1])
   \<and> TrimToLoudestSegment [0, 1, 1, 16777216, 3 / 2] 3 = Value [1, 1, 16777216]"
  by (simp add: f32_eval TrimToLoudestSegment_def accumulate_def slide_def)

lemma decode_wav_third:
  "DecodeLin16WaveAsFloatVector wav_third = Some (Value ([1 / 32768, 0, 0], 3, 1, 3))"
proof (rule decode_mono_one_sample)
  show "decode_header wav_third = Value (1, 3, 2, 36)"
    by (simp add: decode_header_def file_defs reader_defs)
  show "scan_step wav_third 2 1 (36, False, [], 0)
          = Value (int (length wav_third), True, [1 / 32768, 0, 0], 3)"
    by (simp add: scan_step_def file_defs reader_defs read_samples_unfold sample_defs)
qed (simp_all add: file_defs)

text \<open>
  C4 as stated fails. The mono file \<open>wav_third\<close> (sample rate 3, samples \<open>2^-15, 0, 0\<close>)
  with a desired length of 1000 ms gives the slice \<open>[2^-15, 0, 0]\<close>, whose average absolute
  value \<open>2^-15 / 3\<close> is below the threshold \<open>11184811 * 2^-40\<close>, a binary32 value. The
  float quotient of \<open>2^-15\<close> and 3 is rounded up to that same value, the comparison
  \<^verbatim>\<open>average_volume < min_volume\<close> is false, and \<^verbatim>\<open>TrimFile\<close> calls the encoder and writes
  the 50-byte file.
\<close>

theorem TrimFile_encodes_below_threshold:
  "DecodeLin16WaveAsFloatVector wav_third = Some (Value ([1 / 32768, 0, 0], 3, 1, 3))
   \<and> TrimToLoudestSegment_f32 (map Finite [1 / 32768, 0, 0]) 3 = Value (map Finite [1 / 32768, 0, 0])
   \<and> volume [1 / 32768, 0, 0] / 3 < 11184811 / 2 ^ 40
   \<and> average_volume_f32 (map Finite [1 / 32768, 0, 0]) 3 = Finite (11184811 / 2 ^ 40)
   \<and> TrimFile_f32 wav_third 1000 (11184811 / 2 ^ 40)
       = Some (Inr \<lparr>returned = StatusOK, save_wav_status = Some StatusOK,
                   output_file = Some (mono_header 3 3 @ encoded_samples [1 / 32768, 0, 0])\<rparr>)"
proof (intro conjI)
  show "DecodeLin16WaveAsFloatVector wav_third = Some (Value ([1 / 32768, 0, 0], 3, 1, 3))"
    by (rule decode_wav_third)
  show "TrimToLoudestSegment_f32 (map Finite [1 / 32768, 0, 0]) 3
          = Value (map Finite [1 / 32768, 0, 0])"
    by (simp add: TrimToLoudestSegment_f32_def)
  show "volume [1 / 32768, 0, 0] / 3 < 11184811 / 2 ^ 40"
    by (simp add: volume_def)
  show avg: "average_volume_f32 (map Finite [1 / 32768, 0, 0]) 3 = Finite (11184811 / 2 ^ 40)"
    by (simp add: f32_eval)
  have enc: "EncodeAudioAsS16LEWav (Some [1 / 32768, 0, 0]) 3 1 3 (Some [])
               = Value (mono_header 3 3 @ encoded_samples [1 / 32768, 0, 0])"
    using encode_mono [of "[1 / 32768, 0, 0]" 3] by (simp add: numeral_3_eq_3)
  show "TrimFile_f32 wav_third 1000 (11184811 / 2 ^ 40)
       = Some (Inr \<lparr>returned = StatusOK, save_wav_status = Some StatusOK,
                   output_file = Some (mono_header 3 3 @ encoded_samples [1 / 32768, 0, 0])\<rparr>)"
    using decode_wav_third avg enc
    by (simp add: TrimFile_f32_def downmix_f32_def desired_samples_of_def
          TrimToLoudestSegment_f32_def vector_data_def numeral_3_eq_3)
qed

text \<open>
  C4, as amended. When the average volume that the pipeline computes for the extracted
  slice (the binary32 running sum of the absolute sample values, divided in binary32 by
  \<open>desired_samples\<close> converted to \<^verbatim>\<open>float\<close>) is below \<open>min_volume\<close>, \<^verbatim>\<open>TrimFile\<close> returns
  \<^verbatim>\<open>Status::OK()\<close>, does not call the encoder and writes no file.
\<close>

theorem TrimFile_f32_skips_quiet:
  assumes "DecodeLin16WaveAsFloatVector input_file
             = Some (Value (wav_samples, sample_count, channel_count, sample_rate))"
    and "downmix_f32 wav_samples sample_count channel_count = Value mono_samples"
    and "desired_samples_of desired_length_ms sample_rate = Value desired_samples"
    and "TrimToLoudestSegment_f32 mono_samples desired_samples = Value trimmed_samples"
    and "fp_less (average_volume_f32 trimmed_samples desired_samples) min_volume"
  shows "TrimFile_f32 input_file desired_length_ms min_volume
           = Some (Inr \<lparr>returned = StatusOK, save_wav_status = None, output_file = None\<rparr>)"
  using assms by (simp add: TrimFile_f32_def)

theorem TrimFile_f32_skips_quiet_witness:
  "average_volume_f32 (map Finite [1 / 32768, 0]) 2 = Finite (1 / 65536)
   \<and> TrimFile_f32 wav_quiet 1000 (8589935 / 2147483648)
     = Some (Inr \<lparr>returned = StatusOK, save_wav_status = None, output_file = None\<rparr>)"
proof -
  have 1: "downmix_f32 [1 / 32768, 0] 2 1 = Value (map Finite [1 / 32768, 0])"
    by (simp add: downmix_f32_def)
  have 2: "desired_samples_of 1000 2 = Value 2"
    by (simp add: desired_samples_of_def)
  have 3: "TrimToLoudestSegment_f32 (map Finite [1 / 32768, 0]) 2 = Value (map Finite [1 / 32768, 0])"
    by (simp add: TrimToLoudestSegment_f32_def)
  have avg: "average_volume_f32 (map Finite [1 / 32768, 0]) 2 = Finite (1 / 65536)"
    by (simp add: f32_eval)
  then have 4: "fp_less (average_volume_f32 (map Finite [1 / 32768, 0]) 2) (8589935 / 2147483648)"
    by simp
  show ?thesis
    using TrimFile_f32_skips_quiet [OF decode_wav_quiet 1 2 3 4] avg by simp
qed

end
